theory Spec2Isabelle
  imports Main "HOL-Library.Word"
begin

section \<open>Values, property bags and the service configuration\<close>

text \<open>
  The model service of \<^verbatim>\<open>src/lib/service/neo4j.model.service.ts\<close> builds Cypher
  statements from a label, an optional timestamp property and a caller's property bag.
  A property bag is a JavaScript object (\<^verbatim>\<open>Record<string, any>\<close>); it is modelled by the
  list of its entries in the order of \<^verbatim>\<open>Object.keys\<close>. Property values are the values a
  graph property can hold: strings, numbers, booleans and arrays of them. A number is
  modelled by its integer value (a JavaScript number without fractional part), a string
  by the list of its characters.
\<close>

datatype jsvalue =
    JString string
  | JNumber int
  | JBool bool
  | JArray "jsvalue list"

type_synonym bag = "(string \<times> jsvalue) list"

text \<open>\<^verbatim>\<open>Object.keys(props)\<close>.\<close>

definition keys :: "bag \<Rightarrow> string list" where
  "keys props = map fst props"

text \<open>
  Writing a property of an object: an existing key keeps its place and takes the new
  value, a new key is added after the others.
\<close>

fun set_prop :: "bag \<Rightarrow> string \<Rightarrow> jsvalue \<Rightarrow> bag" where
  "set_prop [] k v = [(k, v)]"
| "set_prop ((k', v') # rest) k v =
     (if k' = k then (k, v) # rest else (k', v') # set_prop rest k v)"

text \<open>
  The object spread \<^verbatim>\<open>{ ...t }\<close>: a fresh object that receives the own properties of
  \<^verbatim>\<open>t\<close> one after the other.
\<close>

definition spread :: "bag \<Rightarrow> bag" where
  "spread t = foldl (\<lambda>obj (k, v). set_prop obj k v) [] t"

text \<open>
  The abstract members of \<^verbatim>\<open>Neo4jModelService<T>\<close>: the label, the timestamp property
  (the empty string when the service wants none: the code tests its truthiness), and the
  two mapping hooks, which a subclass may override.
\<close>

record 'T service =
  label :: string
  timestamp :: string
  toNeo4j :: "bag \<Rightarrow> bag"
  fromNeo4j :: "bag \<Rightarrow> 'T"

text \<open>The hooks as the base class defines them (lines 19-25).\<close>

definition default_toNeo4j :: "bag \<Rightarrow> bag" where
  "default_toNeo4j t = spread t"

definition default_fromNeo4j :: "bag \<Rightarrow> bag" where
  "default_fromNeo4j model = spread model"

definition default_service :: "string \<Rightarrow> string \<Rightarrow> bag service" where
  "default_service l ts =
     \<lparr>label = l, timestamp = ts, toNeo4j = default_toNeo4j, fromNeo4j = default_fromNeo4j\<rparr>"

section \<open>Strings\<close>

text \<open>
  \<^verbatim>\<open>Array.prototype.join\<close>; an array inside a template literal is joined with a comma.
\<close>

fun join_with :: "string \<Rightarrow> string list \<Rightarrow> string" where
  "join_with sep [] = []"
| "join_with sep [x] = x"
| "join_with sep (x # y # ys) = x @ sep @ join_with sep (y # ys)"

text \<open>Decimal digits of a number.\<close>

definition digit_char :: "nat \<Rightarrow> char" where
  "digit_char d = ''0123456789abcdef'' ! d"

function show_nat :: "nat \<Rightarrow> string" where
  "show_nat n = (if n < 10 then [digit_char n] else show_nat (n div 10) @ [digit_char (n mod 10)])"
  by pat_completeness auto
termination
  by (relation "measure id") auto

definition show_int :: "int \<Rightarrow> string" where
  "show_int i = (if i < 0 then ''-'' @ show_nat (nat (- i)) else show_nat (nat i))"

text \<open>
  \<^verbatim>\<open>JSON.stringify\<close> on a string: the text between double quotes, with the double
  quote, the backslash and the control characters escaped.
\<close>

definition dquote :: char where
  "dquote = CHR 0x22"

definition backslash :: char where
  "backslash = CHR 0x5C"

definition json_escape :: "char \<Rightarrow> string" where
  "json_escape c =
     (if c = dquote then [backslash, dquote]
      else if c = backslash then [backslash, backslash]
      else if c = CHR 0x08 then [backslash, CHR ''b'']
      else if c = CHR 0x09 then [backslash, CHR ''t'']
      else if c = CHR 0x0A then [backslash, CHR ''n'']
      else if c = CHR 0x0C then [backslash, CHR ''f'']
      else if c = CHR 0x0D then [backslash, CHR ''r'']
      else if (of_char c :: nat) < 32
        then [backslash] @ ''u00'' @ [digit_char (of_char c div 16), digit_char (of_char c mod 16)]
      else [c])"

definition json_quote :: "string \<Rightarrow> string" where
  "json_quote s = [dquote] @ concat (map json_escape s) @ [dquote]"

fun JSON_stringify :: "jsvalue \<Rightarrow> string" where
  "JSON_stringify (JString s) = json_quote s"
| "JSON_stringify (JNumber n) = show_int n"
| "JSON_stringify (JBool b) = (if b then ''true'' else ''false'')"
| "JSON_stringify (JArray vs) = ''['' @ join_with '','' (map JSON_stringify vs) @ '']''"

text \<open>
  \<^verbatim>\<open>JSON.stringify\<close> on an object whose values are already rendered, and on a property
  bag.
\<close>

definition json_object :: "(string \<times> string) list \<Rightarrow> string" where
  "json_object entries =
     ''{'' @ join_with '','' (map (\<lambda>(k, t). json_quote k @ '':'' @ t) entries) @ ''}''"

definition JSON_stringify_bag :: "bag \<Rightarrow> string" where
  "JSON_stringify_bag b = json_object (map (\<lambda>(k, v). (k, JSON_stringify v)) b)"

text \<open>
  \<^verbatim>\<open>JSON.stringify(props[k])\<close> inside a string concatenation: a key without a value
  reads as \<^verbatim>\<open>undefined\<close>.
\<close>

definition prop_literal :: "bag \<Rightarrow> string \<Rightarrow> string" where
  "prop_literal b k = (case map_of b k of None \<Rightarrow> ''undefined'' | Some v \<Rightarrow> JSON_stringify v)"

section \<open>Pagination bounds\<close>

text \<open>
  \<^verbatim>\<open>neo4j.int\<close> of the driver turns a number into the driver's 64-bit \<^verbatim>\<open>Integer\<close>:
  a number at or below \<open>- 2 ^ 63\<close> becomes the least value, one at or above
  \<open>2 ^ 63 - 1\<close> the greatest, any other integer is kept.
\<close>

definition neo4j_int :: "int \<Rightarrow> 64 word" where
  "neo4j_int n =
     (if n \<le> - (2 ^ 63) then word_of_int (- (2 ^ 63))
      else if 2 ^ 63 \<le> n + 1 then word_of_int (2 ^ 63 - 1)
      else word_of_int n)"

text \<open>
  \<^verbatim>\<open>x || d\<close> on an optional number: \<^verbatim>\<open>undefined\<close> and \<open>0\<close> are falsy and give the
  default.
\<close>

definition or_default :: "int option \<Rightarrow> int \<Rightarrow> int" where
  "or_default x d = (case x of None \<Rightarrow> d | Some n \<Rightarrow> if n = 0 then d else n)"

text \<open>
  The parameter objects of the operations. \<^verbatim>\<open>findAll\<close> takes
  \<^verbatim>\<open>{skip?, limit?, orderBy?, descending?}\<close>, \<^verbatim>\<open>findBy\<close> adds \<^verbatim>\<open>props\<close>,
  \<^verbatim>\<open>searchBy\<close> takes \<^verbatim>\<open>{prop, terms, skip?, limit?}\<close> (its field \<^verbatim>\<open>prop\<close> is
  \<open>propName\<close> here). An optional field that is missing is \<open>None\<close>.
\<close>

record paging =
  skip :: "int option"
  limit :: "int option"

record page_params = paging +
  orderBy :: "string option"
  descending :: "bool option"

record find_params = page_params +
  props :: bag

record search_params = paging +
  propName :: string
  terms :: "string list"

record skip_limit =
  skip_int :: "64 word"
  limit_int :: "64 word"

text \<open>\<^verbatim>\<open>params?.f\<close>: the field of a parameter object that may itself be missing.\<close>

definition opt_field :: "'p option \<Rightarrow> ('p \<Rightarrow> 'a option) \<Rightarrow> 'a option" where
  "opt_field ps f = (case ps of None \<Rightarrow> None | Some p \<Rightarrow> f p)"

text \<open>\<^verbatim>\<open>_convertSkipLimit(params?)\<close> (lines 44-49).\<close>

definition convertSkipLimit :: "'a paging_scheme option \<Rightarrow> skip_limit" where
  "convertSkipLimit ps =
     \<lparr>skip_int = neo4j_int (or_default (opt_field ps skip) 0),
      limit_int = neo4j_int (or_default (opt_field ps limit) 10)\<rparr>"

text \<open>The empty parameter object \<^verbatim>\<open>{}\<close>.\<close>

definition no_params :: page_params where
  "no_params = \<lparr>skip = None, limit = None, orderBy = None, descending = None\<rparr>"

section \<open>Statements\<close>

text \<open>
  A statement is the Cypher text with its options: the bound parameters and the session
  options. A parameter is a property bag (\<^verbatim>\<open>props\<close>), a driver integer (\<^verbatim>\<open>skip\<close>,
  \<^verbatim>\<open>limit\<close>) or a list of strings (\<^verbatim>\<open>terms\<close>). The session option \<^verbatim>\<open>write\<close> is the
  field \<open>write_flag\<close>.
\<close>

datatype param = ParamMap bag | ParamInteger "64 word" | ParamStrings "string list"

record session_options =
  write_flag :: bool

record options =
  params :: "(string \<times> param) list"
  sessionOptions :: "session_options option"

record query =
  cypher :: string
  options :: options

text \<open>\<^verbatim>\<open>{ ...Neo4jModelService._convertSkipLimit(params) }\<close>.\<close>

definition skip_limit_params :: "skip_limit \<Rightarrow> (string \<times> param) list" where
  "skip_limit_params sl =
     [(''skip'', ParamInteger (skip_int sl)), (''limit'', ParamInteger (limit_int sl))]"

text \<open>\<^verbatim>\<open>createQuery\<close> (lines 64-80).\<close>

definition createQuery :: "('T, 'a) service_scheme \<Rightarrow> bag \<Rightarrow> query" where
  "createQuery svc ps =
     \<lparr>cypher =
        ''CREATE (n:`'' @ label svc @ ''`) SET n=$props ''
        @ (if timestamp svc \<noteq> [] then ''SET n.`'' @ timestamp svc @ ''` = timestamp() '' else [])
        @ ''RETURN properties(n) AS created'',
      options =
        \<lparr>params = [(''props'', ParamMap (toNeo4j svc ps))],
         sessionOptions = Some \<lparr>write_flag = True\<rparr>\<rparr>\<rparr>"

text \<open>\<^verbatim>\<open>mergeQuery\<close> (lines 91-111).\<close>

definition merge_entry :: "string \<Rightarrow> string" where
  "merge_entry k = ''`'' @ k @ ''`:$props.`'' @ k @ ''`''"

definition mergeQuery :: "('T, 'a) service_scheme \<Rightarrow> bag \<Rightarrow> query" where
  "mergeQuery svc ps =
     \<lparr>cypher =
        ''MERGE (n:`'' @ label svc @ ''`{'' @ join_with '','' (map merge_entry (keys ps)) @ ''})''
        @ (if timestamp svc \<noteq> [] then '' ON CREATE SET n.`'' @ timestamp svc @ ''` = timestamp()''
           else [])
        @ '' RETURN properties(n) AS merged'',
      options =
        \<lparr>params = [(''props'', ParamMap (toNeo4j svc ps))],
         sessionOptions = Some \<lparr>write_flag = True\<rparr>\<rparr>\<rparr>"

text \<open>
  The property filter of \<^verbatim>\<open>deleteQuery\<close> and \<^verbatim>\<open>findByQuery\<close>: for each key of the
  bag, the quoted key and the JSON text of its value.
\<close>

definition filter_entry :: "bag \<Rightarrow> string \<Rightarrow> string" where
  "filter_entry b k = ''`'' @ k @ ''`:'' @ prop_literal b k"

definition filter_text :: "bag \<Rightarrow> string" where
  "filter_text b = join_with '','' (map (filter_entry b) (keys b))"

text \<open>\<^verbatim>\<open>deleteQuery\<close> (lines 122-138).\<close>

definition deleteQuery :: "('T, 'a) service_scheme \<Rightarrow> bag \<Rightarrow> query" where
  "deleteQuery svc ps =
     \<lparr>cypher =
        ''MATCH (n:`'' @ label svc @ ''`{'' @ filter_text ps
        @ ''}) WITH n, properties(n) AS deleted DELETE n RETURN deleted'',
      options =
        \<lparr>params = [(''props'', ParamMap (toNeo4j svc ps))],
         sessionOptions = Some \<lparr>write_flag = True\<rparr>\<rparr>\<rparr>"

text \<open>
  The \<^verbatim>\<open>ORDER BY\<close> part of \<^verbatim>\<open>findAllQuery\<close> and \<^verbatim>\<open>findByQuery\<close>: present when
  \<^verbatim>\<open>orderBy\<close> is truthy (given and not empty), with \<^verbatim>\<open>DESC\<close> when \<^verbatim>\<open>descending\<close> is
  truthy.
\<close>

definition order_clause :: "string option \<Rightarrow> bool option \<Rightarrow> string" where
  "order_clause ob d =
     (case ob of
        None \<Rightarrow> []
      | Some c \<Rightarrow>
          if c = [] then []
          else '' ORDER BY n.`'' @ c @ ''`'' @ (if d = Some True then '' DESC'' else []))"

text \<open>\<^verbatim>\<open>findAllQuery\<close> (lines 149-172).\<close>

definition findAllQuery :: "('T, 'a) service_scheme \<Rightarrow> page_params option \<Rightarrow> query" where
  "findAllQuery svc ps =
     \<lparr>cypher =
        ''MATCH (n:`'' @ label svc @ ''`) RETURN properties(n) AS matched''
        @ order_clause (opt_field ps orderBy) (opt_field ps descending)
        @ '' SKIP $skip LIMIT $limit'',
      options =
        \<lparr>params = skip_limit_params (convertSkipLimit ps), sessionOptions = None\<rparr>\<rparr>"

text \<open>\<^verbatim>\<open>findByQuery\<close> (lines 187-214).\<close>

definition findByQuery :: "('T, 'a) service_scheme \<Rightarrow> find_params \<Rightarrow> query" where
  "findByQuery svc ps =
     (let mapped = toNeo4j svc (props ps) in
      \<lparr>cypher =
         ''MATCH (n:`'' @ label svc @ ''`{'' @ filter_text mapped
         @ ''}) RETURN properties(n) AS matched''
         @ order_clause (orderBy ps) (descending ps)
         @ '' SKIP $skip LIMIT $limit'',
       options =
         \<lparr>params = skip_limit_params (convertSkipLimit (Some ps)), sessionOptions = None\<rparr>\<rparr>)"

text \<open>
  The statement of \<^verbatim>\<open>searchBy\<close> (lines 239-250), a template over several lines: the
  line breaks and the indentation are part of the text.
\<close>

definition apostrophe :: string where
  "apostrophe = [CHR 0x27]"

definition line_break :: string where
  "line_break = [CHR 0x0A] @ ''    ''"

definition searchByQuery :: "('T, 'a) service_scheme \<Rightarrow> search_params \<Rightarrow> query" where
  "searchByQuery svc ps =
     \<lparr>cypher =
        ''MATCH (n:`'' @ label svc @ ''`) WITH n, split(n.`'' @ propName ps @ ''`, ''
        @ apostrophe @ '' '' @ apostrophe @ '') as words'' @ line_break
        @ ''WHERE ANY (term IN $terms WHERE ANY(word IN words WHERE word CONTAINS term))''
        @ line_break
        @ ''WITH n, words, '' @ line_break
        @ ''CASE WHEN apoc.text.join($terms, '' @ apostrophe @ apostrophe
        @ '') = apoc.text.join(words, '' @ apostrophe @ apostrophe @ '') THEN 100'' @ line_break
        @ ''ELSE reduce(s = 0, st IN $terms | s + reduce(s2 = 0, w IN words | ''
        @ ''CASE WHEN (w = st) THEN (s2 + 4) ELSE CASE WHEN (w CONTAINS st) THEN (s2 +2) ''
        @ ''ELSE (s2) END END)) END AS score '' @ line_break
        @ ''ORDER BY score DESC SKIP $skip LIMIT $limit RETURN properties(n) as matched, score'',
      options =
        \<lparr>params = (''terms'', ParamStrings (terms ps)) # skip_limit_params (convertSkipLimit (Some ps)),
         sessionOptions = None\<rparr>\<rparr>"

section \<open>What the statements do on a graph\<close>

text \<open>
  The statements are run by the database. Their meaning is modelled on a graph that is a
  list of nodes, a node being known by its position; each node has the label it was
  created with and its properties. The functions below give the meaning of the clauses
  the statements are made of, for identifiers that are not empty and hold no backquote
  (the statements put the label and the property names between backquotes without
  escaping them). The result \<open>None\<close> stands for every other case: the text is not of
  the modelled shape, or the database rejects it.
\<close>

record gnode =
  node_label :: string
  node_props :: bag

type_synonym graph = "gnode list"

definition backquote :: char where
  "backquote = CHR 0x60"

definition plain_name :: "string \<Rightarrow> bool" where
  "plain_name s = (s \<noteq> [] \<and> backquote \<notin> set s)"

definition well_named :: "('T, 'a) service_scheme \<Rightarrow> bool" where
  "well_named svc = (plain_name (label svc) \<and> (timestamp svc = [] \<or> plain_name (timestamp svc)))"

text \<open>
  \<^verbatim>\<open>SET n.`ts` = timestamp()\<close>, present in a statement when the service has a timestamp
  property; \<open>now\<close> is the time of the database server.
\<close>

definition stamp :: "('T, 'a) service_scheme \<Rightarrow> int \<Rightarrow> bag \<Rightarrow> bag" where
  "stamp svc now b = (if timestamp svc \<noteq> [] then set_prop b (timestamp svc) (JNumber now) else b)"

text \<open>
  The statement of \<^verbatim>\<open>createQuery\<close>: \<^verbatim>\<open>CREATE (n:`L`)\<close> adds a node, \<^verbatim>\<open>SET n=$props\<close>
  gives it the bound properties, the timestamp is set after them, and the properties of
  the node are returned.
\<close>

definition run_create :: "('T, 'a) service_scheme \<Rightarrow> int \<Rightarrow> graph \<Rightarrow> bag \<Rightarrow> (graph \<times> bag list) option" where
  "run_create svc now g ps =
     (if well_named svc
      then (let n = \<lparr>node_label = label svc, node_props = stamp svc now (toNeo4j svc ps)\<rparr>
            in Some (g @ [n], [node_props n]))
      else None)"

text \<open>
  A node pattern \<^verbatim>\<open>(n:`L`{`k`: v, ...})\<close> matches the nodes of label \<open>L\<close> whose
  property \<open>k\<close> equals \<open>v\<close>, for each entry; it says nothing of the other properties
  of the node.
\<close>

definition has_props :: "bag \<Rightarrow> gnode \<Rightarrow> bool" where
  "has_props pat n = list_all (\<lambda>(k, v). map_of (node_props n) k = Some v) pat"

definition matching :: "string \<Rightarrow> bag \<Rightarrow> graph \<Rightarrow> nat list" where
  "matching l pat g =
     filter (\<lambda>i. node_label (g ! i) = l \<and> has_props pat (g ! i)) [0..<length g]"

text \<open>
  The pattern of the statement of \<^verbatim>\<open>mergeQuery\<close>: each key of the caller's bag with
  the value \<^verbatim>\<open>$props.`k`\<close>, read in the bound parameter, which is the mapped bag. A
  key the mapped bag does not have reads as null, and the database refuses to merge on a
  null property.
\<close>

definition merge_pattern :: "('T, 'a) service_scheme \<Rightarrow> bag \<Rightarrow> bag option" where
  "merge_pattern svc ps =
     (if list_all (\<lambda>k. map_of (toNeo4j svc ps) k \<noteq> None) (keys ps)
      then Some (map (\<lambda>k. (k, the (map_of (toNeo4j svc ps) k))) (keys ps))
      else None)"

text \<open>
  \<^verbatim>\<open>MERGE\<close> binds \<open>n\<close> to every node the pattern matches; when there is none it
  creates one from the pattern, and only then runs its \<^verbatim>\<open>ON CREATE SET\<close> part. The
  result is the graph and the positions of the nodes bound to \<open>n\<close>.
\<close>

definition run_merge :: "('T, 'a) service_scheme \<Rightarrow> int \<Rightarrow> graph \<Rightarrow> bag \<Rightarrow> (graph \<times> nat list) option" where
  "run_merge svc now g ps =
     (if well_named svc \<and> list_all plain_name (keys ps)
      then (case merge_pattern svc ps of
              None \<Rightarrow> None
            | Some pat \<Rightarrow>
                (case matching (label svc) pat g of
                   [] \<Rightarrow> Some (g @ [\<lparr>node_label = label svc, node_props = stamp svc now pat\<rparr>],
                               [length g])
                 | i # hits \<Rightarrow> Some (g, i # hits)))
      else None)"

section \<open>The search\<close>

text \<open>
  The expressions of the statement of \<^verbatim>\<open>searchBy\<close>. \<^verbatim>\<open>split(s, ' ')\<close> cuts a string
  at each space: two spaces in a row give an empty word, and a string without a space is
  one word.
\<close>

fun split_at :: "char \<Rightarrow> string \<Rightarrow> string list" where
  "split_at d [] = [[]]"
| "split_at d (c # cs) =
     (if c = d then [] # split_at d cs
      else (case split_at d cs of [] \<Rightarrow> [[c]] | w # ws \<Rightarrow> (c # w) # ws))"

definition space :: char where
  "space = CHR 0x20"

text \<open>\<^verbatim>\<open>w CONTAINS t\<close>: \<open>t\<close> occurs in \<open>w\<close> as a run of consecutive characters.\<close>

fun starts_with :: "string \<Rightarrow> string \<Rightarrow> bool" where
  "starts_with w [] = True"
| "starts_with [] (t # ts) = False"
| "starts_with (c # cs) (t # ts) = (c = t \<and> starts_with cs ts)"

fun contains :: "string \<Rightarrow> string \<Rightarrow> bool" where
  "contains [] t = (t = [])"
| "contains (c # cs) t = (starts_with (c # cs) t \<or> contains cs t)"

text \<open>
  \<^verbatim>\<open>WHERE ANY (term IN $terms WHERE ANY(word IN words WHERE word CONTAINS term))\<close>.
\<close>

definition search_candidate :: "string list \<Rightarrow> string list \<Rightarrow> bool" where
  "search_candidate ts ws = list_ex (\<lambda>term. list_ex (\<lambda>word. contains word term) ws) ts"

text \<open>
  The \<^verbatim>\<open>CASE\<close> expression that is the score: 100 when the terms joined without a
  separator are the words joined without a separator, else the two nested \<^verbatim>\<open>reduce\<close>.
\<close>

definition word_points :: "string \<Rightarrow> int \<Rightarrow> string \<Rightarrow> int" where
  "word_points st s2 w = (if w = st then s2 + 4 else if contains w st then s2 + 2 else s2)"

definition search_score :: "string list \<Rightarrow> string list \<Rightarrow> int" where
  "search_score ts ws =
     (if concat ts = concat ws then 100
      else foldl (\<lambda>s st. s + foldl (word_points st) 0 ws) 0 ts)"

text \<open>
  The words of a node: the property cut at the spaces. A node without the property has
  no words (\<^verbatim>\<open>split\<close> of null is null, and the \<^verbatim>\<open>WHERE\<close> drops the row); a property
  that is not a string makes \<^verbatim>\<open>split\<close> fail.
\<close>

definition prop_words :: "string \<Rightarrow> gnode \<Rightarrow> string list option" where
  "prop_words p n =
     (case map_of (node_props n) p of Some (JString s) \<Rightarrow> Some (split_at space s) | _ \<Rightarrow> None)"

definition text_or_absent :: "string \<Rightarrow> gnode \<Rightarrow> bool" where
  "text_or_absent p n =
     (case map_of (node_props n) p of None \<Rightarrow> True | Some (JString s) \<Rightarrow> True | Some _ \<Rightarrow> False)"

definition labelled :: "string \<Rightarrow> graph \<Rightarrow> graph" where
  "labelled l g = filter (\<lambda>n. node_label n = l) g"

text \<open>The row of a node that passes the \<^verbatim>\<open>WHERE\<close>: its properties and its score.\<close>

definition scored :: "string list \<Rightarrow> string \<Rightarrow> gnode \<Rightarrow> (bag \<times> int) option" where
  "scored ts p n =
     (case prop_words p n of
        None \<Rightarrow> None
      | Some ws \<Rightarrow> if search_candidate ts ws then Some (node_props n, search_score ts ws) else None)"

text \<open>
  The statement as a whole: the rows of the nodes of the label, by decreasing score (rows
  of equal score in the order of the graph: the database promises no order among them),
  without the first \<^verbatim>\<open>$skip\<close>, at most \<^verbatim>\<open>$limit\<close> of them. The database rejects a
  negative \<^verbatim>\<open>SKIP\<close> or \<^verbatim>\<open>LIMIT\<close>.
\<close>

definition search_accepted :: "('T, 'a) service_scheme \<Rightarrow> graph \<Rightarrow> search_params \<Rightarrow> bool" where
  "search_accepted svc g ps =
     (plain_name (label svc) \<and> plain_name (propName ps)
      \<and> list_all (text_or_absent (propName ps)) (labelled (label svc) g)
      \<and> 0 \<le> sint (skip_int (convertSkipLimit (Some ps)))
      \<and> 0 \<le> sint (limit_int (convertSkipLimit (Some ps))))"

definition search_rows :: "('T, 'a) service_scheme \<Rightarrow> graph \<Rightarrow> search_params \<Rightarrow> (bag \<times> int) list" where
  "search_rows svc g ps =
     List.map_filter (scored (terms ps) (propName ps)) (labelled (label svc) g)"

definition run_search :: "('T, 'a) service_scheme \<Rightarrow> graph \<Rightarrow> search_params \<Rightarrow> (bag \<times> int) list option" where
  "run_search svc g ps =
     (if search_accepted svc g ps
      then Some (take (nat (sint (limit_int (convertSkipLimit (Some ps)))))
                  (drop (nat (sint (skip_int (convertSkipLimit (Some ps)))))
                    (sort_key (\<lambda>(b, sc). - sc) (search_rows svc g ps))))
      else None)"

text \<open>
  The scoring rule in the words of the specification, for comparison: the words are the
  tokens of the property between runs of whitespace, and the score is 100 when terms and
  words join to the same string, else 4 for each pair of a term and a word that are equal
  and 2 for each pair where the word only contains the term.
\<close>

definition whitespace :: "char \<Rightarrow> bool" where
  "whitespace c = (c \<in> set [CHR 0x20, CHR 0x09, CHR 0x0A, CHR 0x0B, CHR 0x0C, CHR 0x0D])"

fun tokens :: "string \<Rightarrow> string \<Rightarrow> string list" where
  "tokens cur [] = (if cur = [] then [] else [cur])"
| "tokens cur (c # cs) =
     (if whitespace c then (if cur = [] then tokens [] cs else cur # tokens [] cs)
      else tokens (cur @ [c]) cs)"

definition whitespace_words :: "string \<Rightarrow> string list" where
  "whitespace_words s = tokens [] s"

definition pair_points :: "string \<Rightarrow> string \<Rightarrow> int" where
  "pair_points t w = (if w = t then 4 else if contains w t then 2 else 0)"

definition spec_score :: "string list \<Rightarrow> string list \<Rightarrow> int" where
  "spec_score ts ws =
     (if concat ts = concat ws then 100
      else sum_list (map (\<lambda>t. sum_list (map (pair_points t) ws)) ts))"

section \<open>The operations\<close>

text \<open>
  An operation logs, builds its statement, runs it and maps the rows. The collaborators
  are members of the service: the logger, which may be missing (\<^verbatim>\<open>this.logger?.debug\<close>)
  and whose \<^verbatim>\<open>debug\<close> either returns or throws, and the Neo4j service, whose \<^verbatim>\<open>run\<close>
  gives the records of the result or throws. A thrown exception is a \<open>failure\<close>, and an
  operation that throws returns it on the left.
\<close>

datatype failure = Failure string

datatype dbvalue = DbMap bag | DbInteger "64 word"

type_synonym row = "(string \<times> dbvalue) list"

datatype log_arg =
    LogText string
  | LogStatement string options
  | LogResults "row list"

record 'T model_service = "'T service" +
  logger :: "(log_arg \<Rightarrow> failure option) option"
  neo4jService_run :: "string \<Rightarrow> options \<Rightarrow> failure + row list"
  neo4jService_getCypherConstraints :: "string \<Rightarrow> string list"
  neo4jService_transaction :: "string list \<Rightarrow> failure option"

text \<open>Sequencing: the second step runs when the first has not thrown.\<close>

definition and_then :: "failure + 'a \<Rightarrow> ('a \<Rightarrow> failure + 'b) \<Rightarrow> failure + 'b" where
  "and_then r f = (case r of Inl e \<Rightarrow> Inl e | Inr x \<Rightarrow> f x)"

text \<open>\<^verbatim>\<open>this.logger?.debug(a)\<close>: nothing without a logger, and no handler around the call.\<close>

definition debug :: "('T, 'a) model_service_scheme \<Rightarrow> log_arg \<Rightarrow> failure + unit" where
  "debug svc a =
     (case logger svc of
        None \<Rightarrow> Inr ()
      | Some d \<Rightarrow> (case d a of None \<Rightarrow> Inr () | Some e \<Rightarrow> Inl e))"

text \<open>
  \<^verbatim>\<open>_runWithDebug\<close> (lines 27-42). The records are taken as the plain objects that
  \<^verbatim>\<open>toObject\<close> gives.
\<close>

definition runWithDebug :: "('T, 'a) model_service_scheme \<Rightarrow> string \<Rightarrow> options \<Rightarrow> failure + row list" where
  "runWithDebug svc cy opts =
     and_then (debug svc (LogStatement cy opts)) (\<lambda>_.
     and_then (neo4jService_run svc cy opts) (\<lambda>results.
     and_then (debug svc (LogResults results)) (\<lambda>_.
     Inr results)))"

text \<open>
  A column of a row, handed to \<^verbatim>\<open>fromNeo4j\<close> as a record: the map that
  \<^verbatim>\<open>properties(n)\<close> returns; a driver integer is an object with the two halves
  \<^verbatim>\<open>low\<close> and \<^verbatim>\<open>high\<close>, and a missing column has no property to copy.
\<close>

definition low_half :: "64 word \<Rightarrow> int" where
  "low_half w = sint (ucast w :: 32 word)"

definition high_half :: "64 word \<Rightarrow> int" where
  "high_half w = sint (ucast (drop_bit 32 w) :: 32 word)"

definition column_record :: "row \<Rightarrow> string \<Rightarrow> bag" where
  "column_record r c =
     (case map_of r c of
        None \<Rightarrow> []
      | Some (DbMap b) \<Rightarrow> b
      | Some (DbInteger w) \<Rightarrow> [(''low'', JNumber (low_half w)), (''high'', JNumber (high_half w))])"

text \<open>
  \<^verbatim>\<open>r.score.toInt()\<close>: the low half of the driver integer; a type error when the column
  is missing or is not a driver integer.
\<close>

definition score_toInt :: "row \<Rightarrow> failure + int" where
  "score_toInt r =
     (case map_of r ''score'' of
        Some (DbInteger w) \<Rightarrow> Inr (low_half w)
      | _ \<Rightarrow> Inl (Failure ''TypeError''))"

text \<open>\<^verbatim>\<open>res.map(f)\<close> for an \<open>f\<close> that may throw: the first exception ends the loop.\<close>

fun map_rows :: "('r \<Rightarrow> failure + 'b) \<Rightarrow> 'r list \<Rightarrow> failure + 'b list" where
  "map_rows f [] = Inr []"
| "map_rows f (r # rs) =
     and_then (f r) (\<lambda>y. and_then (map_rows f rs) (\<lambda>ys. Inr (y # ys)))"

text \<open>
  The text \<^verbatim>\<open>JSON.stringify(params)\<close> of the log lines, the keys in the order of the
  parameter type; a field that is missing is left out, and a missing object prints as
  \<^verbatim>\<open>undefined\<close>.
\<close>

definition opt_entry :: "string \<Rightarrow> 'a option \<Rightarrow> ('a \<Rightarrow> string) \<Rightarrow> (string \<times> string) list" where
  "opt_entry k x f = (case x of None \<Rightarrow> [] | Some v \<Rightarrow> [(k, f v)])"

definition bool_text :: "bool \<Rightarrow> string" where
  "bool_text b = (if b then ''true'' else ''false'')"

definition paging_entries :: "'a paging_scheme \<Rightarrow> (string \<times> string) list" where
  "paging_entries p = opt_entry ''skip'' (skip p) show_int @ opt_entry ''limit'' (limit p) show_int"

definition page_entries :: "'a page_params_scheme \<Rightarrow> (string \<times> string) list" where
  "page_entries p =
     paging_entries p @ opt_entry ''orderBy'' (orderBy p) json_quote
     @ opt_entry ''descending'' (descending p) bool_text"

definition page_params_json :: "page_params option \<Rightarrow> string" where
  "page_params_json ps = (case ps of None \<Rightarrow> ''undefined'' | Some p \<Rightarrow> json_object (page_entries p))"

definition find_params_json :: "find_params \<Rightarrow> string" where
  "find_params_json p = json_object ((''props'', JSON_stringify_bag (props p)) # page_entries p)"

definition search_params_json :: "search_params \<Rightarrow> string" where
  "search_params_json p =
     json_object ([(''prop'', json_quote (propName p)),
                   (''terms'', JSON_stringify (JArray (map JString (terms p))))]
                  @ paging_entries p)"

text \<open>\<^verbatim>\<open>runCypherConstraints\<close> (lines 51-62).\<close>

definition runCypherConstraints :: "('T, 'a) model_service_scheme \<Rightarrow> failure + string list" where
  "runCypherConstraints svc =
     and_then (debug svc (LogText ''runCypherConstraints()'')) (\<lambda>_.
     (let queries = neo4jService_getCypherConstraints svc (label svc) in
      case neo4jService_transaction svc queries of
        Some e \<Rightarrow> Inl e
      | None \<Rightarrow> Inr queries))"

text \<open>\<^verbatim>\<open>create\<close> (lines 82-89); \<open>None\<close> is \<^verbatim>\<open>undefined\<close>.\<close>

definition first_row :: "('T, 'a) model_service_scheme \<Rightarrow> string \<Rightarrow> row list \<Rightarrow> 'T option" where
  "first_row svc c res = (case res of [] \<Rightarrow> None | r # _ \<Rightarrow> Some (fromNeo4j svc (column_record r c)))"

definition create :: "('T, 'a) model_service_scheme \<Rightarrow> bag \<Rightarrow> failure + 'T option" where
  "create svc ps =
     and_then (debug svc (LogText (''create('' @ JSON_stringify_bag ps @ '')''))) (\<lambda>_.
     (let q = createQuery svc ps in
      and_then (runWithDebug svc (cypher q) (options q)) (\<lambda>res.
      Inr (first_row svc ''created'' res))))"

text \<open>\<^verbatim>\<open>merge\<close> (lines 113-120).\<close>

definition merge :: "('T, 'a) model_service_scheme \<Rightarrow> bag \<Rightarrow> failure + 'T option" where
  "merge svc ps =
     and_then (debug svc (LogText (''merge('' @ JSON_stringify_bag ps @ '')''))) (\<lambda>_.
     (let q = mergeQuery svc ps in
      and_then (runWithDebug svc (cypher q) (options q)) (\<lambda>res.
      Inr (first_row svc ''merged'' res))))"

text \<open>\<^verbatim>\<open>delete\<close> (lines 140-147).\<close>

definition delete :: "('T, 'a) model_service_scheme \<Rightarrow> bag \<Rightarrow> failure + 'T list" where
  "delete svc ps =
     and_then (debug svc (LogText (''delete('' @ JSON_stringify_bag ps @ '')''))) (\<lambda>_.
     (let q = deleteQuery svc ps in
      and_then (runWithDebug svc (cypher q) (options q)) (\<lambda>res.
      Inr (map (\<lambda>r. fromNeo4j svc (column_record r ''deleted'')) res))))"

text \<open>\<^verbatim>\<open>findAll\<close> (lines 174-185).\<close>

definition findAll :: "('T, 'a) model_service_scheme \<Rightarrow> page_params option \<Rightarrow> failure + 'T list" where
  "findAll svc ps =
     and_then (debug svc (LogText (''findAll('' @ page_params_json ps @ '')''))) (\<lambda>_.
     (let q = findAllQuery svc ps in
      and_then (runWithDebug svc (cypher q) (options q)) (\<lambda>res.
      Inr (map (\<lambda>r. fromNeo4j svc (column_record r ''matched'')) res))))"

text \<open>\<^verbatim>\<open>findBy\<close> (lines 216-228).\<close>

definition findBy :: "('T, 'a) model_service_scheme \<Rightarrow> find_params \<Rightarrow> failure + 'T list" where
  "findBy svc ps =
     and_then (debug svc (LogText (''findBy('' @ find_params_json ps @ '')''))) (\<lambda>_.
     (let q = findByQuery svc ps in
      and_then (runWithDebug svc (cypher q) (options q)) (\<lambda>res.
      Inr (map (\<lambda>r. fromNeo4j svc (column_record r ''matched'')) res))))"

text \<open>\<^verbatim>\<open>searchBy\<close> (lines 230-256); its log line says \<^verbatim>\<open>findBy\<close>, as the source does.\<close>

definition searchBy :: "('T, 'a) model_service_scheme \<Rightarrow> search_params \<Rightarrow> failure + ('T \<times> int) list" where
  "searchBy svc ps =
     and_then (debug svc (LogText (''findBy('' @ search_params_json ps @ '')''))) (\<lambda>_.
     (let q = searchByQuery svc ps in
      and_then (runWithDebug svc (cypher q) (options q)) (\<lambda>res.
      map_rows (\<lambda>r. and_then (score_toInt r) (\<lambda>sc.
        Inr (fromNeo4j svc (column_record r ''matched''), sc))) res)))"

text \<open>
  The run of the statement of \<^verbatim>\<open>searchBy\<close> on a database that holds the graph \<open>g\<close>:
  asked that statement with its bound parameters, the database replies the rows that
  \<open>run_search\<close> gives, each with the two columns the statement returns, the score as
  an integer of the database; a statement that \<open>run_search\<close> does not run is a failed
  run. Any other statement is not one this run answers.
\<close>

definition reply_row :: "bag \<times> int \<Rightarrow> row" where
  "reply_row r = [(''matched'', DbMap (fst r)), (''score'', DbInteger (word_of_int (snd r)))]"

definition search_database :: "('T, 'a) service_scheme \<Rightarrow> graph \<Rightarrow> search_params \<Rightarrow> string \<Rightarrow> options \<Rightarrow> failure + row list" where
  "search_database svc g ps cy opts =
     (if cy = cypher (searchByQuery svc ps) \<and> opts = options (searchByQuery svc ps)
      then (case run_search svc g ps of
              None \<Rightarrow> Inl (Failure ''statement rejected'')
            | Some rows \<Rightarrow> Inr (map reply_row rows))
      else Inl (Failure ''another statement''))"

text \<open>
  Where the logger of a service can throw in the course of an operation that logs the
  line \<open>entry\<close> and then runs the statement \<open>q\<close> through \<^verbatim>\<open>_runWithDebug\<close>: at the
  entry of the operation; after a quiet entry, on the statement, before the run; after
  both, on the results of a run that has returned.
\<close>

definition throws_in :: "('T, 'a) model_service_scheme \<Rightarrow> log_arg \<Rightarrow> query \<Rightarrow> failure \<Rightarrow> bool" where
  "throws_in svc entry q e =
     (case logger svc of
        None \<Rightarrow> False
      | Some d \<Rightarrow>
          d entry = Some e
          \<or> (d entry = None \<and> d (LogStatement (cypher q) (options q)) = Some e)
          \<or> (d entry = None \<and> d (LogStatement (cypher q) (options q)) = None
              \<and> (case neo4jService_run svc (cypher q) (options q) of
                    Inl x \<Rightarrow> False
                  | Inr rs \<Rightarrow> d (LogResults rs) = Some e)))"

section \<open>Inputs of the examples\<close>

text \<open>
  The services, nodes and parameter objects on which the theorems below are run: two
  services with the hooks of the base class, with and without a timestamp property; a
  service whose \<^verbatim>\<open>toNeo4j\<close> override wraps every value in an array and one whose
  override stores 0 for every value; services with their collaborators; loggers.
\<close>

definition person :: "bag service" where
  "person = default_service ''Person'' ''createdAt''"

definition plain_person :: "bag service" where
  "plain_person = default_service ''Person'' []"


definition by_name :: "string \<Rightarrow> find_params" where
  "by_name s =
     \<lparr>skip = None, limit = None, orderBy = None, descending = None,
      props = [(''name'', JString s)]\<rparr>"

definition titled :: "string \<Rightarrow> gnode" where
  "titled s = \<lparr>node_label = ''Doc'', node_props = [(''title'', JString s)]\<rparr>"

definition title_search :: "string list \<Rightarrow> search_params" where
  "title_search ts = \<lparr>skip = None, limit = None, propName = ''title'', terms = ts\<rparr>"

definition tabbed :: string where
  "tabbed = ''ab'' @ [CHR 0x09] @ ''cd''"

definition one_a :: gnode where
  "one_a = \<lparr>node_label = ''Person'', node_props = [(''a'', JNumber 1)]\<rparr>"

definition two_a :: gnode where
  "two_a = \<lparr>node_label = ''Person'', node_props = [(''a'', JNumber 2)]\<rparr>"

definition a_and_b :: gnode where
  "a_and_b = \<lparr>node_label = ''Person'', node_props = [(''a'', JNumber 1), (''b'', JNumber 2)]\<rparr>"

definition stamped_a :: gnode where
  "stamped_a =
     \<lparr>node_label = ''Person'', node_props = [(''a'', JNumber 1), (''createdAt'', JNumber 7)]\<rparr>"

definition stamped_only :: gnode where
  "stamped_only = \<lparr>node_label = ''Person'', node_props = [(''createdAt'', JNumber 7)]\<rparr>"

definition zero_a :: gnode where
  "zero_a = \<lparr>node_label = ''Person'', node_props = [(''a'', JNumber 0)]\<rparr>"

definition zeroing :: "bag service" where
  "zeroing =
     \<lparr>label = ''Person'', timestamp = [], toNeo4j = map (\<lambda>(k, v). (k, JNumber 0)),
      fromNeo4j = default_fromNeo4j\<rparr>"

definition stamped_zero :: gnode where
  "stamped_zero =
     \<lparr>node_label = ''Person'', node_props = [(''a'', JNumber 1), (''createdAt'', JNumber 0)]\<rparr>"

definition stamped_five :: gnode where
  "stamped_five =
     \<lparr>node_label = ''Person'', node_props = [(''a'', JNumber 2), (''createdAt'', JNumber 5)]\<rparr>"

definition people :: "bag model_service" where
  "people =
     \<lparr>label = ''Person'', timestamp = [], toNeo4j = default_toNeo4j,
      fromNeo4j = default_fromNeo4j, logger = None,
      neo4jService_run = (\<lambda>cy opts. Inr [[(''created'', DbMap [(''a'', JNumber 1)])]]),
      neo4jService_getCypherConstraints = (\<lambda>l. []),
      neo4jService_transaction = (\<lambda>qs. None)\<rparr>"

definition numbered :: gnode where
  "numbered = \<lparr>node_label = ''Doc'', node_props = [(''title'', JNumber 7)]\<rparr>"

definition no_terms :: "string \<Rightarrow> int option \<Rightarrow> int option \<Rightarrow> search_params" where
  "no_terms p s l = \<lparr>skip = s, limit = l, propName = p, terms = []\<rparr>"

definition graph_service :: "string \<Rightarrow> graph \<Rightarrow> search_params \<Rightarrow> bag model_service" where
  "graph_service l g ps =
     \<lparr>label = l, timestamp = [], toNeo4j = default_toNeo4j,
      fromNeo4j = default_fromNeo4j, logger = None,
      neo4jService_run = search_database (default_service l []) g ps,
      neo4jService_getCypherConstraints = (\<lambda>l. []),
      neo4jService_transaction = (\<lambda>qs. None)\<rparr>"

definition quiet_logger :: "log_arg \<Rightarrow> failure option" where
  "quiet_logger a = None"

definition failing_logger :: "log_arg \<Rightarrow> failure option" where
  "failing_logger a = Some (Failure ''logger down'')"

definition statement_logger :: "log_arg \<Rightarrow> failure option" where
  "statement_logger a =
     (case a of LogStatement cy opts \<Rightarrow> Some (Failure ''logger down'') | _ \<Rightarrow> None)"

definition results_logger :: "log_arg \<Rightarrow> failure option" where
  "results_logger a = (case a of LogResults rs \<Rightarrow> Some (Failure ''logger down'') | _ \<Rightarrow> None)"

section \<open>Pagination: the defaults\<close>

lemma sint_neo4j_int:
  "- (2 ^ 63) \<le> n \<Longrightarrow> n < 2 ^ 63 \<Longrightarrow> sint (neo4j_int n) = n"
  unfolding neo4j_int_def
  by (auto simp: sint_sbintrunc' signed_take_bit_int_eq_self)

lemma neo4j_int_small [simp]: "neo4j_int 0 = 0" "neo4j_int 10 = 10" "neo4j_int 5 = 5"
  by (simp_all add: neo4j_int_def)

lemma sint_neo4j_int_low: "n \<le> - (2 ^ 63) \<Longrightarrow> sint (neo4j_int n) = - (2 ^ 63)"
  by (simp add: neo4j_int_def)

text \<open>
  C6, as the claim states it, fails for a negative number below the range of a 64-bit
  integer: it does not pass unchanged. For a skip or a limit of \<open>- 10 ^ 19\<close> the driver
  integer is the least one, \<open>- 9223372036854775808\<close>.
\<close>

theorem negative_below_range_counterexample:
  "(- (10 ^ 19) :: int) < 0
   \<and> sint (skip_int (convertSkipLimit (Some (no_params\<lparr>skip := Some (- (10 ^ 19))\<rparr>))))
       = - 9223372036854775808
   \<and> sint (limit_int (convertSkipLimit (Some (no_params\<lparr>limit := Some (- (10 ^ 19))\<rparr>))))
       = - 9223372036854775808
   \<and> (- 9223372036854775808 :: int) \<noteq> - (10 ^ 19)"
  by (simp add: convertSkipLimit_def opt_field_def or_default_def no_params_def neo4j_int_def)

text \<open>
  C6, amended. The pagination normalizer gives skip 0 and limit 10 for a missing
  parameter object, for \<^verbatim>\<open>{}\<close> and for every object without the field, and keeps
  \<^verbatim>\<open>skip: 5\<close> beside the default limit. The results are driver integers of 64 bits.
  Nothing checks the sign: a negative number from \<open>- 2 ^ 63\<close> on passes unchanged, as
  skip and as limit, and a number below \<open>- 2 ^ 63\<close> becomes \<open>- 2 ^ 63\<close>.
\<close>

theorem convertSkipLimit_defaults:
  "convertSkipLimit None = \<lparr>skip_int = 0, limit_int = 10\<rparr>
   \<and> convertSkipLimit (Some no_params) = \<lparr>skip_int = 0, limit_int = 10\<rparr>
   \<and> convertSkipLimit (Some (no_params\<lparr>skip := Some 5\<rparr>)) = \<lparr>skip_int = 5, limit_int = 10\<rparr>
   \<and> (skip p = None \<longrightarrow> skip_int (convertSkipLimit (Some p)) = 0)
   \<and> (limit p = None \<longrightarrow> limit_int (convertSkipLimit (Some p)) = 10)
   \<and> (- (2 ^ 63) \<le> n \<and> n < 0 \<longrightarrow>
        sint (skip_int (convertSkipLimit (Some (p\<lparr>skip := Some n\<rparr>)))) = n
        \<and> sint (limit_int (convertSkipLimit (Some (p\<lparr>limit := Some n\<rparr>)))) = n)
   \<and> (m < - (2 ^ 63) \<longrightarrow>
        sint (skip_int (convertSkipLimit (Some (p\<lparr>skip := Some m\<rparr>)))) = - (2 ^ 63)
        \<and> sint (limit_int (convertSkipLimit (Some (p\<lparr>limit := Some m\<rparr>)))) = - (2 ^ 63))"
proof -
  have "sint (skip_int (convertSkipLimit (Some (p\<lparr>skip := Some m\<rparr>)))) = - (2 ^ 63)
        \<and> sint (limit_int (convertSkipLimit (Some (p\<lparr>limit := Some m\<rparr>)))) = - (2 ^ 63)"
    if "m < - (2 ^ 63)"
    using that
    by (simp add: convertSkipLimit_def opt_field_def or_default_def sint_neo4j_int_low)
  then show ?thesis
    by (auto simp: convertSkipLimit_def opt_field_def or_default_def no_params_def sint_neo4j_int)
qed

theorem convertSkipLimit_defaults_witness:
  "skip no_params = None \<and> limit no_params = None
   \<and> skip_int (convertSkipLimit (Some no_params)) = 0
   \<and> limit_int (convertSkipLimit (Some no_params)) = 10
   \<and> - (2 ^ 63) \<le> (- 3 :: int) \<and> (- 3 :: int) < 0
   \<and> sint (skip_int (convertSkipLimit (Some (no_params\<lparr>skip := Some (- 3)\<rparr>)))) = - 3
   \<and> sint (limit_int (convertSkipLimit (Some (no_params\<lparr>limit := Some (- 3)\<rparr>)))) = - 3
   \<and> (- (10 ^ 19) :: int) < - (2 ^ 63)
   \<and> sint (skip_int (convertSkipLimit (Some (no_params\<lparr>skip := Some (- (10 ^ 19))\<rparr>)))) = - (2 ^ 63)
   \<and> sint (limit_int (convertSkipLimit (Some (no_params\<lparr>limit := Some (- (10 ^ 19))\<rparr>)))) = - (2 ^ 63)"
proof -
  note t = convertSkipLimit_defaults [of no_params "- 3" "- (10 ^ 19)"]
  have a: "skip no_params = None" and b: "limit no_params = None"
    by (simp_all add: no_params_def)
  have c: "- (2 ^ 63) \<le> (- 3 :: int) \<and> (- 3 :: int) < 0"
    by simp
  have d: "(- (10 ^ 19) :: int) < - (2 ^ 63)"
    by simp
  from t a b c d show ?thesis
    by blast
qed


section \<open>The default mapping\<close>

lemma set_prop_fresh: "k \<notin> set (keys b) \<Longrightarrow> set_prop b k v = b @ [(k, v)]"
  by (induction b) (auto simp: keys_def)

lemma foldl_set_prop:
  "distinct (keys (acc @ t)) \<Longrightarrow> foldl (\<lambda>obj (k, v). set_prop obj k v) acc t = acc @ t"
proof (induction t arbitrary: acc)
  case Nil
  then show ?case by simp
next
  case (Cons e t)
  obtain k v where e: "e = (k, v)" by (cases e)
  from Cons.prems have fresh: "k \<notin> set (keys acc)"
    by (auto simp: keys_def e)
  from Cons.prems have "distinct (keys ((acc @ [(k, v)]) @ t))"
    by (simp add: keys_def e)
  then have "foldl (\<lambda>obj (k, v). set_prop obj k v) (acc @ [(k, v)]) t = (acc @ [(k, v)]) @ t"
    by (rule Cons.IH)
  with fresh show ?case
    by (simp add: e set_prop_fresh)
qed

lemma spread_distinct: "distinct (keys t) \<Longrightarrow> spread t = t"
  using foldl_set_prop [of "[]" t] by (simp add: spread_def)

text \<open>
  C8. With the hooks of the base class, mapping a property bag to storage and back gives
  the bag again: the two shallow copies compose to the identity. A bag is an object, so
  its keys are distinct.
\<close>

theorem default_round_trip:
  "distinct (keys x) \<Longrightarrow>
     default_fromNeo4j (default_toNeo4j x) = x
     \<and> fromNeo4j (default_service l ts) (toNeo4j (default_service l ts) x) = x"
  by (simp add: default_fromNeo4j_def default_toNeo4j_def default_service_def spread_distinct)

theorem default_round_trip_witness:
  "distinct (keys [(''name'', JString ''Ada''), (''age'', JNumber 36)])
   \<and> default_fromNeo4j (default_toNeo4j [(''name'', JString ''Ada''), (''age'', JNumber 36)])
       = [(''name'', JString ''Ada''), (''age'', JNumber 36)]"
  using default_round_trip [of "[(''name'', JString ''Ada''), (''age'', JNumber 36)]"]
  by (simp add: keys_def)

section \<open>The search: what the expressions compute\<close>

text \<open>
  The model of \<^verbatim>\<open>CONTAINS\<close> is the substring relation, and the model of \<^verbatim>\<open>split\<close>
  cuts at the delimiter and nowhere else: joining the words with the delimiter gives the
  string back.
\<close>

lemma starts_with_iff: "starts_with w t \<longleftrightarrow> (\<exists>s. w = t @ s)"
  by (induction w t rule: starts_with.induct) auto

lemma contains_iff: "contains w t \<longleftrightarrow> (\<exists>p s. w = p @ t @ s)"
proof (induction w)
  case Nil
  then show ?case by auto
next
  case (Cons c cs)
  show ?case
  proof
    assume "contains (c # cs) t"
    then consider "starts_with (c # cs) t" | "contains cs t" by auto
    then show "\<exists>p s. c # cs = p @ t @ s"
    proof cases
      case 1
      then obtain s where "c # cs = t @ s" by (auto simp: starts_with_iff)
      then have "c # cs = [] @ t @ s" by simp
      then show ?thesis by blast
    next
      case 2
      with Cons obtain p s where "cs = p @ t @ s" by auto
      then have "c # cs = (c # p) @ t @ s" by simp
      then show ?thesis by blast
    qed
  next
    assume "\<exists>p s. c # cs = p @ t @ s"
    then obtain p s where e: "c # cs = p @ t @ s" by blast
    show "contains (c # cs) t"
    proof (cases p)
      case Nil
      with e have "starts_with (c # cs) t" by (auto simp: starts_with_iff)
      then show ?thesis by simp
    next
      case (Cons a p')
      with e have "cs = p' @ t @ s" by simp
      with Cons.IH have "contains cs t" by blast
      then show ?thesis by simp
    qed
  qed
qed

lemma split_at_nonempty: "split_at d s \<noteq> []"
  by (induction s) (auto split: list.splits)

lemma join_split_at: "join_with [d] (split_at d s) = s"
proof (induction s)
  case Nil
  then show ?case by simp
next
  case (Cons c cs)
  obtain w ws where "split_at d cs = w # ws"
    using split_at_nonempty [of d cs] by (cases "split_at d cs") auto
  with Cons show ?case by (cases ws) auto
qed

lemma split_at_no_delimiter: "w \<in> set (split_at d s) \<Longrightarrow> d \<notin> set w"
  by (induction s arbitrary: w) (auto split: if_splits list.splits)

text \<open>The nested \<^verbatim>\<open>reduce\<close> is the double sum over the terms and the words.\<close>

lemma foldl_word_points:
  "foldl (word_points st) a ws = a + sum_list (map (pair_points st) ws)"
  by (induction ws arbitrary: a) (auto simp: word_points_def pair_points_def)

lemma foldl_terms:
  "foldl (\<lambda>s st. s + foldl (word_points st) 0 ws) a ts
     = a + sum_list (map (\<lambda>t. sum_list (map (pair_points t) ws)) ts)"
  by (induction ts arbitrary: a) (auto simp: foldl_word_points)

lemma search_score_spec: "search_score ts ws = spec_score ts ws"
  by (simp add: search_score_def spec_score_def foldl_terms)

lemma scored_Some:
  "scored ts p n = Some (b, sc) \<Longrightarrow>
     \<exists>s. b = node_props n \<and> map_of (node_props n) p = Some (JString s)
        \<and> search_candidate ts (split_at space s) \<and> sc = search_score ts (split_at space s)"
  by (auto simp: scored_def prop_words_def split: option.splits jsvalue.splits if_splits)

lemma search_rows_member:
  assumes "(b, sc) \<in> set (search_rows svc g ps)"
  shows "\<exists>s. map_of b (propName ps) = Some (JString s)
        \<and> search_candidate (terms ps) (split_at space s)
        \<and> sc = search_score (terms ps) (split_at space s)"
proof -
  from assms obtain n where "scored (terms ps) (propName ps) n \<noteq> None"
    and "(b, sc) = the (scored (terms ps) (propName ps) n)"
    by (auto simp: search_rows_def map_filter_def)
  then have "scored (terms ps) (propName ps) n = Some (b, sc)"
    by auto
  from scored_Some [OF this] show ?thesis
    by auto
qed

lemma run_search_subset:
  assumes "run_search svc g ps = Some rows"
  shows "set rows \<subseteq> set (search_rows svc g ps)"
proof -
  from assms obtain i j
    where "rows = take i (drop j (sort_key (\<lambda>(b, sc). - sc) (search_rows svc g ps)))"
    by (auto simp: run_search_def split: if_splits)
  then have "set rows \<subseteq> set (sort_key (\<lambda>(b, sc). - sc) (search_rows svc g ps))"
    by (metis set_take_subset set_drop_subset subset_trans)
  then show ?thesis by simp
qed

lemmas run_search_eval = run_search_def search_accepted_def default_service_def titled_def
  title_search_def plain_name_def backquote_def labelled_def text_or_absent_def
  convertSkipLimit_def opt_field_def or_default_def search_rows_def map_filter_def scored_def
  prop_words_def search_candidate_def search_score_def word_points_def space_def

text \<open>
  C1, as the claim states it, fails: the words of the statement are the pieces of the
  property between single spaces, not its whitespace-separated tokens. For the property
  \<^verbatim>\<open>ab<TAB>cd\<close> and the terms \<^verbatim>\<open>ab\<close>, \<^verbatim>\<open>cd\<close> the node passes the filter with the
  score 4 (one word, which contains each term), where the rule on whitespace-separated
  words gives 100.
\<close>

theorem search_tab_counterexample:
  "run_search (default_service ''Doc'' []) [titled tabbed] (title_search [''ab'', ''cd''])
     = Some [([(''title'', JString tabbed)], 4)]
   \<and> whitespace_words tabbed = [''ab'', ''cd'']
   \<and> spec_score [''ab'', ''cd''] (whitespace_words tabbed) = 100"
  by (simp add: run_search_eval tabbed_def spec_score_def whitespace_words_def whitespace_def)

text \<open>
  C1, amended. For every node that passes the candidate filter of \<^verbatim>\<open>searchBy\<close>, and so
  for every row the statement returns, the property is a string and the score is 100
  when the terms joined without a separator equal the joined words of the property, the
  words being its pieces between single spaces; otherwise the score is the sum over
  each term and each word of 4 if the word is the term, else 2 if the word contains the
  term, else 0. For the property \<^verbatim>\<open>red blue red\<close> and the terms \<^verbatim>\<open>red\<close>, \<^verbatim>\<open>blue\<close> the
  score is 12.
\<close>

theorem search_score_rule:
  "((b, sc) \<in> set (search_rows svc g ps)
      \<or> (run_search svc g ps = Some rows \<and> (b, sc) \<in> set rows) \<longrightarrow>
      (\<exists>s. map_of b (propName ps) = Some (JString s)
         \<and> search_candidate (terms ps) (split_at space s)
         \<and> sc = (if concat (terms ps) = concat (split_at space s) then 100
                 else sum_list (map (\<lambda>t. sum_list (map (pair_points t) (split_at space s)))
                        (terms ps)))))
   \<and> search_score [''red'', ''blue''] (split_at space ''red blue red'') = 12"
proof -
  have "search_score [''red'', ''blue''] (split_at space ''red blue red'') = 12"
    by (simp add: search_score_def word_points_def space_def)
  moreover have "\<exists>s. map_of b (propName ps) = Some (JString s)
         \<and> search_candidate (terms ps) (split_at space s)
         \<and> sc = (if concat (terms ps) = concat (split_at space s) then 100
                 else sum_list (map (\<lambda>t. sum_list (map (pair_points t) (split_at space s)))
                        (terms ps)))"
    if "(b, sc) \<in> set (search_rows svc g ps)
      \<or> (run_search svc g ps = Some rows \<and> (b, sc) \<in> set rows)"
  proof -
    from that have "(b, sc) \<in> set (search_rows svc g ps)"
      using run_search_subset by blast
    from search_rows_member [OF this] show ?thesis
      by (simp add: search_score_spec spec_score_def)
  qed
  ultimately show ?thesis by blast
qed

lemma run_red_blue:
  "run_search (default_service ''Doc'' []) [titled ''red blue red''] (title_search [''red'', ''blue''])
     = Some [([(''title'', JString ''red blue red'')], 12)]"
  by (simp add: run_search_eval)

theorem search_score_rule_witness:
  "run_search (default_service ''Doc'' []) [titled ''red blue red''] (title_search [''red'', ''blue''])
     = Some [([(''title'', JString ''red blue red'')], 12)]
   \<and> ([(''title'', JString ''red blue red'')], 12)
       \<in> set [([(''title'', JString ''red blue red'')], 12 :: int)]
   \<and> (\<exists>s. map_of [(''title'', JString ''red blue red'')] (propName (title_search [''red'', ''blue'']))
           = Some (JString s)
         \<and> search_candidate (terms (title_search [''red'', ''blue''])) (split_at space s)
         \<and> (12 :: int)
           = (if concat (terms (title_search [''red'', ''blue''])) = concat (split_at space s) then 100
              else sum_list (map (\<lambda>t. sum_list (map (pair_points t) (split_at space s)))
                     (terms (title_search [''red'', ''blue''])))))"
proof -
  have m: "([(''title'', JString ''red blue red'')], 12)
       \<in> set [([(''title'', JString ''red blue red'')], 12 :: int)]"
    by simp
  from search_score_rule [of "[(''title'', JString ''red blue red'')]" 12
      "default_service ''Doc'' []" "[titled ''red blue red'']" "title_search [''red'', ''blue'']"
      "[([(''title'', JString ''red blue red'')], 12)]"] run_red_blue m
  show ?thesis by blast
qed

lemma scored_no_terms: "scored [] p n = None"
  by (simp add: scored_def search_candidate_def split: option.splits)

lemma search_accepted_terms:
  "search_accepted svc g (ps\<lparr>terms := ts\<rparr>) = search_accepted svc g ps"
  by (simp add: search_accepted_def convertSkipLimit_def opt_field_def)

section \<open>The statements: what is bound and what is written out\<close>

lemma prop_literal_entry:
  "distinct (keys b) \<Longrightarrow> (k, v) \<in> set b \<Longrightarrow> prop_literal b k = JSON_stringify v"
  by (simp add: prop_literal_def keys_def)

lemma filter_text_entries:
  assumes "distinct (keys b)"
  shows "filter_text b = join_with '','' (map (\<lambda>(k, v). ''`'' @ k @ ''`:'' @ JSON_stringify v) b)"
proof -
  have "map (filter_entry b) (keys b) = map (\<lambda>(k, v). ''`'' @ k @ ''`:'' @ JSON_stringify v) b"
    using assms by (auto simp: keys_def filter_entry_def prop_literal_entry)
  then show ?thesis by (simp add: filter_text_def)
qed

lemma default_toNeo4j_id: "distinct (keys b) \<Longrightarrow> toNeo4j (default_service l ts) b = b"
  by (simp add: default_service_def default_toNeo4j_def spread_distinct)

text \<open>
  C2, as the claim states it, fails for \<^verbatim>\<open>delete\<close> and \<^verbatim>\<open>findBy\<close>: their statements
  hold the property values in the text. Two bags with the same keys and different
  values give different texts, and the text for the name \<^verbatim>\<open>a\<close> holds the literal
  \<^verbatim>\<open>"a"\<close>.
\<close>

theorem filter_literal_counterexample:
  "keys [(''name'', JString ''a'')] = keys [(''name'', JString ''b'')]
   \<and> cypher (deleteQuery person [(''name'', JString ''a'')])
       = ''MATCH (n:`Person`{`name`:'' @ [dquote] @ ''a'' @ [dquote]
         @ ''}) WITH n, properties(n) AS deleted DELETE n RETURN deleted''
   \<and> cypher (deleteQuery person [(''name'', JString ''a'')])
       \<noteq> cypher (deleteQuery person [(''name'', JString ''b'')])
   \<and> cypher (findByQuery person (by_name ''a'')) \<noteq> cypher (findByQuery person (by_name ''b''))"
  by (simp add: deleteQuery_def findByQuery_def person_def default_service_def by_name_def
      filter_text_def filter_entry_def prop_literal_def keys_def json_quote_def json_escape_def
      dquote_def backslash_def default_toNeo4j_def spread_def)

text \<open>
  C2, amended. The statements of \<^verbatim>\<open>create\<close> and \<^verbatim>\<open>merge\<close> never hold a property value:
  the text of \<^verbatim>\<open>create\<close> is the same for every bag, the text of \<^verbatim>\<open>merge\<close> depends on
  the keys of the bag only, and the mapped bag is the bound parameter \<^verbatim>\<open>props\<close>. The
  statements of \<^verbatim>\<open>findAll\<close>, \<^verbatim>\<open>findBy\<close> and \<^verbatim>\<open>searchBy\<close> do not depend on skip, limit
  and terms, which are bound parameters. The statements of \<^verbatim>\<open>delete\<close> and \<^verbatim>\<open>findBy\<close>
  write each value of the filter into the text, as the JSON literal of the value.
\<close>

theorem values_bound_or_literal:
  "cypher (createQuery svc ps) = cypher (createQuery svc qs)
   \<and> params (options (createQuery svc ps)) = [(''props'', ParamMap (toNeo4j svc ps))]
   \<and> (keys ps = keys qs \<longrightarrow> cypher (mergeQuery svc ps) = cypher (mergeQuery svc qs))
   \<and> params (options (mergeQuery svc ps)) = [(''props'', ParamMap (toNeo4j svc ps))]
   \<and> (opt_field pp orderBy = opt_field pq orderBy \<and> opt_field pp descending = opt_field pq descending
        \<longrightarrow> cypher (findAllQuery svc pp) = cypher (findAllQuery svc pq))
   \<and> params (options (findAllQuery svc pp)) = skip_limit_params (convertSkipLimit pp)
   \<and> (propName sp = propName sq \<longrightarrow> cypher (searchByQuery svc sp) = cypher (searchByQuery svc sq))
   \<and> params (options (searchByQuery svc sp))
       = (''terms'', ParamStrings (terms sp)) # skip_limit_params (convertSkipLimit (Some sp))
   \<and> (props fp = props fq \<and> orderBy fp = orderBy fq \<and> descending fp = descending fq
        \<longrightarrow> cypher (findByQuery svc fp) = cypher (findByQuery svc fq))
   \<and> params (options (findByQuery svc fp)) = skip_limit_params (convertSkipLimit (Some fp))
   \<and> (distinct (keys ps) \<longrightarrow>
        cypher (deleteQuery svc ps)
          = ''MATCH (n:`'' @ label svc @ ''`{''
            @ join_with '','' (map (\<lambda>(k, v). ''`'' @ k @ ''`:'' @ JSON_stringify v) ps)
            @ ''}) WITH n, properties(n) AS deleted DELETE n RETURN deleted'')
   \<and> (distinct (keys (toNeo4j svc (props fp))) \<longrightarrow>
        cypher (findByQuery svc fp)
          = ''MATCH (n:`'' @ label svc @ ''`{''
            @ join_with '','' (map (\<lambda>(k, v). ''`'' @ k @ ''`:'' @ JSON_stringify v)
                (toNeo4j svc (props fp)))
            @ ''}) RETURN properties(n) AS matched''
            @ order_clause (orderBy fp) (descending fp) @ '' SKIP $skip LIMIT $limit'')"
  by (simp add: createQuery_def mergeQuery_def findAllQuery_def searchByQuery_def
      findByQuery_def deleteQuery_def filter_text_entries Let_def)

theorem values_bound_or_literal_witness:
  "keys [(''name'', JString ''a'')] = keys [(''name'', JString ''b'')]
   \<and> cypher (mergeQuery person [(''name'', JString ''a'')])
       = cypher (mergeQuery person [(''name'', JString ''b'')])
   \<and> opt_field (Some no_params) orderBy = opt_field (None :: page_params option) orderBy
   \<and> opt_field (Some no_params) descending = opt_field (None :: page_params option) descending
   \<and> cypher (findAllQuery person (Some no_params)) = cypher (findAllQuery person None)
   \<and> propName (title_search [''red'']) = propName (title_search [''blue''])
   \<and> cypher (searchByQuery person (title_search [''red'']))
       = cypher (searchByQuery person (title_search [''blue'']))
   \<and> props (by_name ''a'') = props ((by_name ''a'')\<lparr>skip := Some 3\<rparr>)
   \<and> orderBy (by_name ''a'') = orderBy ((by_name ''a'')\<lparr>skip := Some 3\<rparr>)
   \<and> descending (by_name ''a'') = descending ((by_name ''a'')\<lparr>skip := Some 3\<rparr>)
   \<and> cypher (findByQuery person (by_name ''a''))
       = cypher (findByQuery person ((by_name ''a'')\<lparr>skip := Some 3\<rparr>))
   \<and> distinct (keys [(''name'', JString ''a'')])
   \<and> distinct (keys (toNeo4j person (props (by_name ''a''))))
   \<and> cypher (deleteQuery person [(''name'', JString ''a'')])
       = ''MATCH (n:`'' @ label person @ ''`{''
         @ join_with '','' (map (\<lambda>(k, v). ''`'' @ k @ ''`:'' @ JSON_stringify v) [(''name'', JString ''a'')])
         @ ''}) WITH n, properties(n) AS deleted DELETE n RETURN deleted''"
proof -
  note t = values_bound_or_literal [where svc = person and ps = "[(''name'', JString ''a'')]"
      and qs = "[(''name'', JString ''b'')]" and pp = "Some no_params" and pq = None
      and sp = "title_search [''red'']" and sq = "title_search [''blue'']"
      and fp = "by_name ''a''" and fq = "(by_name ''a'')\<lparr>skip := Some 3\<rparr>"]
  have k: "keys [(''name'', JString ''a'')] = keys [(''name'', JString ''b'')]"
    by (simp add: keys_def)
  have o: "opt_field (Some no_params) orderBy = opt_field (None :: page_params option) orderBy
    \<and> opt_field (Some no_params) descending = opt_field (None :: page_params option) descending"
    by (simp add: opt_field_def no_params_def)
  have n: "propName (title_search [''red'']) = propName (title_search [''blue''])"
    by (simp add: title_search_def)
  have f: "props (by_name ''a'') = props ((by_name ''a'')\<lparr>skip := Some 3\<rparr>)
    \<and> orderBy (by_name ''a'') = orderBy ((by_name ''a'')\<lparr>skip := Some 3\<rparr>)
    \<and> descending (by_name ''a'') = descending ((by_name ''a'')\<lparr>skip := Some 3\<rparr>)"
    by simp
  have d: "distinct (keys [(''name'', JString ''a'')])"
    and d': "distinct (keys (toNeo4j person (props (by_name ''a''))))"
    by (simp_all add: keys_def person_def default_service_def default_toNeo4j_def spread_def
        by_name_def)
  from t have "keys [(''name'', JString ''a'')] = keys [(''name'', JString ''b'')] \<longrightarrow>
      cypher (mergeQuery person [(''name'', JString ''a'')])
       = cypher (mergeQuery person [(''name'', JString ''b'')])"
    by (elim conjE)
  with k have c1: "cypher (mergeQuery person [(''name'', JString ''a'')])
       = cypher (mergeQuery person [(''name'', JString ''b'')])"
    by (rule rev_mp)
  from t have "opt_field (Some no_params) orderBy = opt_field (None :: page_params option) orderBy
    \<and> opt_field (Some no_params) descending = opt_field (None :: page_params option) descending \<longrightarrow>
      cypher (findAllQuery person (Some no_params)) = cypher (findAllQuery person None)"
    by (elim conjE)
  with o have c2: "cypher (findAllQuery person (Some no_params)) = cypher (findAllQuery person None)"
    by (rule rev_mp)
  from t have "propName (title_search [''red'']) = propName (title_search [''blue'']) \<longrightarrow>
      cypher (searchByQuery person (title_search [''red'']))
       = cypher (searchByQuery person (title_search [''blue'']))"
    by (elim conjE)
  with n have c3: "cypher (searchByQuery person (title_search [''red'']))
       = cypher (searchByQuery person (title_search [''blue'']))"
    by (rule rev_mp)
  from t have "props (by_name ''a'') = props ((by_name ''a'')\<lparr>skip := Some 3\<rparr>)
    \<and> orderBy (by_name ''a'') = orderBy ((by_name ''a'')\<lparr>skip := Some 3\<rparr>)
    \<and> descending (by_name ''a'') = descending ((by_name ''a'')\<lparr>skip := Some 3\<rparr>) \<longrightarrow>
      cypher (findByQuery person (by_name ''a''))
       = cypher (findByQuery person ((by_name ''a'')\<lparr>skip := Some 3\<rparr>))"
    by (elim conjE)
  with f have c4: "cypher (findByQuery person (by_name ''a''))
       = cypher (findByQuery person ((by_name ''a'')\<lparr>skip := Some 3\<rparr>))"
    by (rule rev_mp)
  from t have "distinct (keys [(''name'', JString ''a'')]) \<longrightarrow>
      cypher (deleteQuery person [(''name'', JString ''a'')])
       = ''MATCH (n:`'' @ label person @ ''`{''
         @ join_with '','' (map (\<lambda>(k, v). ''`'' @ k @ ''`:'' @ JSON_stringify v) [(''name'', JString ''a'')])
         @ ''}) WITH n, properties(n) AS deleted DELETE n RETURN deleted''"
    by (elim conjE)
  with d have c5: "cypher (deleteQuery person [(''name'', JString ''a'')])
       = ''MATCH (n:`'' @ label person @ ''`{''
         @ join_with '','' (map (\<lambda>(k, v). ''`'' @ k @ ''`:'' @ JSON_stringify v) [(''name'', JString ''a'')])
         @ ''}) WITH n, properties(n) AS deleted DELETE n RETURN deleted''"
    by (rule rev_mp)
  from k c1 o c2 n c3 f c4 d d' c5 show ?thesis
    by (intro conjI) (elim conjE, assumption)+
qed



section \<open>The statements on a graph: timestamp and merge\<close>

lemma map_of_set_prop_same: "map_of (set_prop b k v) k = Some v"
  by (induction b) auto

lemma map_of_set_prop_other: "k' \<noteq> k \<Longrightarrow> map_of (set_prop b k v) k' = map_of b k'"
  by (induction b) auto

lemma matching_append:
  "matching l pat (g @ [n])
     = matching l pat g @ (if node_label n = l \<and> has_props pat n then [length g] else [])"
proof -
  have "filter (\<lambda>i. node_label ((g @ [n]) ! i) = l \<and> has_props pat ((g @ [n]) ! i)) [0..<length g]
      = filter (\<lambda>i. node_label (g ! i) = l \<and> has_props pat (g ! i)) [0..<length g]"
    by (rule filter_cong) (auto simp: nth_append)
  then show ?thesis
    by (simp add: matching_def)
qed

lemma matching_bound: "i \<in> set (matching l pat g) \<Longrightarrow> i < length g"
  by (simp add: matching_def)

lemma matching_has_props:
  "i \<in> set (matching l pat g) \<Longrightarrow> node_label (g ! i) = l \<and> has_props pat (g ! i)"
  by (simp add: matching_def)

lemma merge_pattern_keys: "merge_pattern svc ps = Some pat \<Longrightarrow> keys pat = keys ps"
  by (auto simp: merge_pattern_def keys_def comp_def split: if_splits)

lemma merge_pattern_lookup:
  assumes "merge_pattern svc ps = Some pat" and "k \<in> set (keys ps)"
  shows "\<exists>v. map_of pat k = Some v \<and> map_of (toNeo4j svc ps) k = Some v"
proof -
  from assms(1) have pat: "pat = map (\<lambda>k. (k, the (map_of (toNeo4j svc ps) k))) (keys ps)"
    and all: "list_all (\<lambda>k. map_of (toNeo4j svc ps) k \<noteq> None) (keys ps)"
    by (auto simp: merge_pattern_def split: if_splits)
  from all assms(2) obtain v where some: "map_of (toNeo4j svc ps) k = Some v"
    by (auto simp: list_all_iff)
  have "map_of pat k = Some (the (map_of (toNeo4j svc ps) k))"
    unfolding pat using assms(2) by (induction "keys ps") (auto simp: map_of_map_restrict)
  with some show ?thesis by simp
qed

lemma merge_pattern_entry:
  assumes "merge_pattern svc ps = Some pat" and "(k, v) \<in> set pat"
  shows "k \<in> set (keys ps) \<and> map_of pat k = Some v"
proof -
  from assms(1) have pat: "pat = map (\<lambda>k. (k, the (map_of (toNeo4j svc ps) k))) (keys ps)"
    by (auto simp: merge_pattern_def split: if_splits)
  with assms(2) have k: "k \<in> set (keys ps)" and v: "v = the (map_of (toNeo4j svc ps) k)"
    by auto
  from merge_pattern_lookup [OF assms(1) k] obtain w where "map_of pat k = Some w"
    and "map_of (toNeo4j svc ps) k = Some w" by blast
  with v k show ?thesis by simp
qed

lemma has_props_iff:
  "has_props pat n \<longleftrightarrow> (\<forall>(k, v) \<in> set pat. map_of (node_props n) k = Some v)"
  by (simp add: has_props_def list_all_iff)

lemma has_props_created:
  assumes "merge_pattern svc ps = Some pat" and "timestamp svc \<notin> set (keys ps)"
  shows "has_props pat \<lparr>node_label = l, node_props = stamp svc now pat\<rparr>"
proof -
  have "map_of (stamp svc now pat) k = Some v" if "(k, v) \<in> set pat" for k v
  proof -
    from merge_pattern_entry [OF assms(1) that] have k: "k \<in> set (keys ps)"
      and v: "map_of pat k = Some v" by auto
    from k assms(2) have "k \<noteq> timestamp svc" by auto
    with v show ?thesis by (simp add: stamp_def map_of_set_prop_other)
  qed
  then show ?thesis by (auto simp: has_props_iff)
qed

lemma run_merge_matched:
  assumes "well_named svc" and "list_all plain_name (keys ps)"
    and "merge_pattern svc ps = Some pat" and "matching (label svc) pat g \<noteq> []"
  shows "run_merge svc now g ps = Some (g, matching (label svc) pat g)"
  using assms by (simp add: run_merge_def split: list.splits)

lemma run_merge_created:
  assumes "well_named svc" and "list_all plain_name (keys ps)"
    and "merge_pattern svc ps = Some pat" and "matching (label svc) pat g = []"
  shows "run_merge svc now g ps
     = Some (g @ [\<lparr>node_label = label svc, node_props = stamp svc now pat\<rparr>], [length g])"
  using assms by (simp add: run_merge_def)

lemma run_merge_cases:
  assumes "run_merge svc now g ps = Some (g1, ids)"
  obtains pat where "well_named svc" and "list_all plain_name (keys ps)"
    and "merge_pattern svc ps = Some pat"
    and "(matching (label svc) pat g \<noteq> [] \<and> g1 = g \<and> ids = matching (label svc) pat g)
       \<or> (matching (label svc) pat g = []
          \<and> g1 = g @ [\<lparr>node_label = label svc, node_props = stamp svc now pat\<rparr>]
          \<and> ids = [length g])"
  using assms by (auto simp: run_merge_def split: if_splits option.splits list.splits)

lemma run_merge_again:
  assumes run: "run_merge svc now g ps = Some (g1, ids)"
    and ts: "timestamp svc \<notin> set (keys ps)"
  shows "run_merge svc now' g1 ps = Some (g1, ids)"
proof -
  from run obtain pat where wn: "well_named svc" and pl: "list_all plain_name (keys ps)"
    and pat: "merge_pattern svc ps = Some pat"
    and cases: "(matching (label svc) pat g \<noteq> [] \<and> g1 = g \<and> ids = matching (label svc) pat g)
       \<or> (matching (label svc) pat g = []
          \<and> g1 = g @ [\<lparr>node_label = label svc, node_props = stamp svc now pat\<rparr>]
          \<and> ids = [length g])"
    by (rule run_merge_cases)
  from cases show ?thesis
  proof
    assume "matching (label svc) pat g \<noteq> [] \<and> g1 = g \<and> ids = matching (label svc) pat g"
    with run_merge_matched [OF wn pl pat, of g now'] show ?thesis by simp
  next
    assume c: "matching (label svc) pat g = []
          \<and> g1 = g @ [\<lparr>node_label = label svc, node_props = stamp svc now pat\<rparr>]
          \<and> ids = [length g]"
    have "matching (label svc) pat g1 = [length g]"
      using c has_props_created [OF pat ts, of "label svc" now]
      by (simp add: matching_append)
    then have "matching (label svc) pat g1 \<noteq> []" and "ids = matching (label svc) pat g1"
      using c by simp_all
    with run_merge_matched [OF wn pl pat, of g1 now'] show ?thesis by simp
  qed
qed

lemma run_merge_bound_nodes:
  assumes run: "run_merge svc now g ps = Some (g1, ids)"
    and ts: "timestamp svc \<notin> set (keys ps)"
    and i: "i \<in> set ids" and k: "k \<in> set (keys ps)"
  shows "i < length g1 \<and> (\<exists>v. map_of (node_props (g1 ! i)) k = Some v
         \<and> map_of (toNeo4j svc ps) k = Some v)"
proof -
  from run_merge_again [OF run ts, of now] have again: "run_merge svc now g1 ps = Some (g1, ids)" .
  from again obtain pat where pat: "merge_pattern svc ps = Some pat"
    and cases: "(matching (label svc) pat g1 \<noteq> [] \<and> g1 = g1 \<and> ids = matching (label svc) pat g1)
       \<or> (matching (label svc) pat g1 = []
          \<and> g1 = g1 @ [\<lparr>node_label = label svc, node_props = stamp svc now pat\<rparr>]
          \<and> ids = [length g1])"
    by (rule run_merge_cases)
  from cases have ids: "ids = matching (label svc) pat g1" by auto
  from merge_pattern_lookup [OF pat k] obtain v where v: "map_of pat k = Some v"
    and m: "map_of (toNeo4j svc ps) k = Some v" by blast
  from v have "(k, v) \<in> set pat" by (rule map_of_SomeD)
  moreover from i ids have "has_props pat (g1 ! i)" and "i < length g1"
    by (auto dest: matching_has_props matching_bound)
  ultimately have "map_of (node_props (g1 ! i)) k = Some v"
    by (auto simp: has_props_iff)
  with m \<open>i < length g1\<close> show ?thesis by simp
qed

lemma run_merge_prefix:
  assumes "run_merge svc now g ps = Some (g1, ids)"
  shows "ids \<noteq> [] \<and> (\<forall>i \<in> set ids. i < length g1) \<and> (\<forall>i < length g. g1 ! i = g ! i)
         \<and> length g \<le> length g1"
  using assms
  by (rule run_merge_cases) (auto simp: nth_append dest: matching_bound)


lemma run_merge_distinct_nodes:
  assumes run1: "run_merge svc now g ps = Some (g1, ids)"
    and run2: "run_merge svc now' g1 qs = Some (g2, ids')"
    and ts: "timestamp svc \<notin> set (keys ps)"
    and k: "k \<in> set (keys ps)" "k \<in> set (keys qs)"
    and differ: "map_of (toNeo4j svc ps) k \<noteq> map_of (toNeo4j svc qs) k"
  shows "set ids \<inter> set ids' = {}"
proof (rule ccontr)
  assume "set ids \<inter> set ids' \<noteq> {}"
  then obtain i where i: "i \<in> set ids" and i': "i \<in> set ids'" by auto
  from run_merge_bound_nodes [OF run1 ts i k(1)] obtain v where len: "i < length g1"
    and v: "map_of (node_props (g1 ! i)) k = Some v" and pv: "map_of (toNeo4j svc ps) k = Some v"
    by blast
  from run2 obtain pat where pat: "merge_pattern svc qs = Some pat"
    and cases: "(matching (label svc) pat g1 \<noteq> [] \<and> g2 = g1 \<and> ids' = matching (label svc) pat g1)
       \<or> (matching (label svc) pat g1 = []
          \<and> g2 = g1 @ [\<lparr>node_label = label svc, node_props = stamp svc now' pat\<rparr>]
          \<and> ids' = [length g1])"
    by (rule run_merge_cases)
  from cases i' len have "i \<in> set (matching (label svc) pat g1)" by auto
  then have hp: "has_props pat (g1 ! i)" by (simp add: matching_has_props)
  from merge_pattern_lookup [OF pat k(2)] obtain w where w: "map_of pat k = Some w"
    and qw: "map_of (toNeo4j svc qs) k = Some w" by blast
  from w have "(k, w) \<in> set pat" by (rule map_of_SomeD)
  with hp have "map_of (node_props (g1 ! i)) k = Some w" by (auto simp: has_props_iff)
  with v pv qw differ show False by simp
qed

lemmas run_merge_eval = run_merge_def default_service_def well_named_def plain_name_def
  backquote_def keys_def merge_pattern_def default_toNeo4j_def spread_def matching_def
  has_props_def stamp_def

text \<open>
  C3. With a timestamp property, the statement of \<^verbatim>\<open>create\<close> sets it to the server time
  after the properties, whatever the bag, and the statement of \<^verbatim>\<open>merge\<close> sets it in its
  \<^verbatim>\<open>ON CREATE\<close> part only: when the pattern matches a node the graph is left as it is,
  and when it matches none the node created carries the server time. Without a timestamp
  property neither text has the clause, and the node created has the given properties
  only.
\<close>

theorem timestamp_on_creation_only:
  "(timestamp svc \<noteq> [] \<longrightarrow>
      cypher (createQuery svc ps)
        = ''CREATE (n:`'' @ label svc @ ''`) SET n=$props SET n.`'' @ timestamp svc
          @ ''` = timestamp() RETURN properties(n) AS created''
      \<and> cypher (mergeQuery svc ps)
        = ''MERGE (n:`'' @ label svc @ ''`{'' @ join_with '','' (map merge_entry (keys ps))
          @ ''}) ON CREATE SET n.`'' @ timestamp svc @ ''` = timestamp() RETURN properties(n) AS merged'')
   \<and> (timestamp svc = [] \<longrightarrow>
      cypher (createQuery svc ps)
        = ''CREATE (n:`'' @ label svc @ ''`) SET n=$props RETURN properties(n) AS created''
      \<and> cypher (mergeQuery svc ps)
        = ''MERGE (n:`'' @ label svc @ ''`{'' @ join_with '','' (map merge_entry (keys ps))
          @ ''}) RETURN properties(n) AS merged'')
   \<and> (well_named svc \<and> timestamp svc \<noteq> [] \<longrightarrow>
        (\<exists>n. run_create svc now g ps = Some (g @ [n], [node_props n])
           \<and> map_of (node_props n) (timestamp svc) = Some (JNumber now)))
   \<and> (well_named svc \<and> timestamp svc = [] \<longrightarrow>
        run_create svc now g ps
          = Some (g @ [\<lparr>node_label = label svc, node_props = toNeo4j svc ps\<rparr>], [toNeo4j svc ps]))
   \<and> (well_named svc \<and> list_all plain_name (keys ps) \<and> merge_pattern svc ps = Some pat
        \<and> matching (label svc) pat g \<noteq> [] \<longrightarrow>
        run_merge svc now g ps = Some (g, matching (label svc) pat g))
   \<and> (well_named svc \<and> list_all plain_name (keys ps) \<and> merge_pattern svc ps = Some pat
        \<and> matching (label svc) pat g = [] \<and> timestamp svc \<noteq> [] \<longrightarrow>
        (\<exists>n. run_merge svc now g ps = Some (g @ [n], [length g])
           \<and> map_of (node_props n) (timestamp svc) = Some (JNumber now)))
   \<and> (well_named svc \<and> list_all plain_name (keys ps) \<and> merge_pattern svc ps = Some pat
        \<and> matching (label svc) pat g = [] \<and> timestamp svc = [] \<longrightarrow>
        run_merge svc now g ps = Some (g @ [\<lparr>node_label = label svc, node_props = pat\<rparr>], [length g]))"
proof -
  have texts: "(timestamp svc \<noteq> [] \<longrightarrow>
      cypher (createQuery svc ps)
        = ''CREATE (n:`'' @ label svc @ ''`) SET n=$props SET n.`'' @ timestamp svc
          @ ''` = timestamp() RETURN properties(n) AS created''
      \<and> cypher (mergeQuery svc ps)
        = ''MERGE (n:`'' @ label svc @ ''`{'' @ join_with '','' (map merge_entry (keys ps))
          @ ''}) ON CREATE SET n.`'' @ timestamp svc @ ''` = timestamp() RETURN properties(n) AS merged'')
   \<and> (timestamp svc = [] \<longrightarrow>
      cypher (createQuery svc ps)
        = ''CREATE (n:`'' @ label svc @ ''`) SET n=$props RETURN properties(n) AS created''
      \<and> cypher (mergeQuery svc ps)
        = ''MERGE (n:`'' @ label svc @ ''`{'' @ join_with '','' (map merge_entry (keys ps))
          @ ''}) RETURN properties(n) AS merged'')"
    by (simp add: createQuery_def mergeQuery_def)
  have c1: "well_named svc \<and> timestamp svc \<noteq> [] \<longrightarrow>
        (\<exists>n. run_create svc now g ps = Some (g @ [n], [node_props n])
           \<and> map_of (node_props n) (timestamp svc) = Some (JNumber now))"
    by (simp add: run_create_def stamp_def map_of_set_prop_same)
  have c2: "well_named svc \<and> timestamp svc = [] \<longrightarrow>
        run_create svc now g ps
          = Some (g @ [\<lparr>node_label = label svc, node_props = toNeo4j svc ps\<rparr>], [toNeo4j svc ps])"
    by (simp add: run_create_def stamp_def)
  have m1: "well_named svc \<and> list_all plain_name (keys ps) \<and> merge_pattern svc ps = Some pat
        \<and> matching (label svc) pat g \<noteq> [] \<longrightarrow>
        run_merge svc now g ps = Some (g, matching (label svc) pat g)"
    using run_merge_matched by blast
  have m2: "well_named svc \<and> list_all plain_name (keys ps) \<and> merge_pattern svc ps = Some pat
        \<and> matching (label svc) pat g = [] \<and> timestamp svc \<noteq> [] \<longrightarrow>
        (\<exists>n. run_merge svc now g ps = Some (g @ [n], [length g])
           \<and> map_of (node_props n) (timestamp svc) = Some (JNumber now))"
    by (auto simp: run_merge_created stamp_def map_of_set_prop_same)
  have m3: "well_named svc \<and> list_all plain_name (keys ps) \<and> merge_pattern svc ps = Some pat
        \<and> matching (label svc) pat g = [] \<and> timestamp svc = [] \<longrightarrow>
        run_merge svc now g ps = Some (g @ [\<lparr>node_label = label svc, node_props = pat\<rparr>], [length g])"
    by (auto simp: run_merge_created stamp_def)
  from texts c1 c2 m1 m2 m3 show ?thesis
    by (intro conjI) (elim conjE, assumption)+
qed

theorem timestamp_on_creation_only_witness:
  "timestamp person \<noteq> []
   \<and> well_named person
   \<and> cypher (createQuery person [(''a'', JNumber 1)])
       = ''CREATE (n:`'' @ label person @ ''`) SET n=$props SET n.`'' @ timestamp person
         @ ''` = timestamp() RETURN properties(n) AS created''
   \<and> (\<exists>n. run_create person 7 [] [(''a'', JNumber 1)] = Some ([] @ [n], [node_props n])
         \<and> map_of (node_props n) (timestamp person) = Some (JNumber 7))
   \<and> list_all plain_name (keys [(''a'', JNumber 1)])
   \<and> merge_pattern person [(''a'', JNumber 1)] = Some [(''a'', JNumber 1)]
   \<and> matching (label person) [(''a'', JNumber 1)] [] = []
   \<and> (\<exists>n. run_merge person 7 [] [(''a'', JNumber 1)] = Some ([] @ [n], [length ([] :: graph)])
         \<and> map_of (node_props n) (timestamp person) = Some (JNumber 7))
   \<and> matching (label person) [(''a'', JNumber 1)] [stamped_a] \<noteq> []
   \<and> run_merge person 9 [stamped_a] [(''a'', JNumber 1)]
       = Some ([stamped_a], matching (label person) [(''a'', JNumber 1)] [stamped_a])
   \<and> timestamp plain_person = []
   \<and> well_named plain_person
   \<and> cypher (createQuery plain_person [(''a'', JNumber 1)])
       = ''CREATE (n:`'' @ label plain_person @ ''`) SET n=$props RETURN properties(n) AS created''
   \<and> run_create plain_person 7 [] [(''a'', JNumber 1)]
       = Some ([] @ [\<lparr>node_label = label plain_person,
                        node_props = toNeo4j plain_person [(''a'', JNumber 1)]\<rparr>],
               [toNeo4j plain_person [(''a'', JNumber 1)]])
   \<and> merge_pattern plain_person [(''a'', JNumber 1)] = Some [(''a'', JNumber 1)]
   \<and> matching (label plain_person) [(''a'', JNumber 1)] [] = []
   \<and> run_merge plain_person 7 [] [(''a'', JNumber 1)]
       = Some ([] @ [\<lparr>node_label = label plain_person, node_props = [(''a'', JNumber 1)]\<rparr>],
               [length ([] :: graph)])"
proof -
  note t1 = timestamp_on_creation_only [where svc = person and ps = "[(''a'', JNumber 1)]"
      and now = 7 and g = "[]" and pat = "[(''a'', JNumber 1)]"]
  note t2 = timestamp_on_creation_only [where svc = person and ps = "[(''a'', JNumber 1)]"
      and now = 9 and g = "[stamped_a]" and pat = "[(''a'', JNumber 1)]"]
  note t3 = timestamp_on_creation_only [where svc = plain_person and ps = "[(''a'', JNumber 1)]"
      and now = 7 and g = "[]" and pat = "[(''a'', JNumber 1)]"]
  have h1: "timestamp person \<noteq> []" "well_named person"
    by (simp_all add: person_def default_service_def well_named_def plain_name_def backquote_def)
  have h2: "list_all plain_name (keys [(''a'', JNumber 1)])"
    by (simp add: keys_def plain_name_def backquote_def)
  have h3: "merge_pattern person [(''a'', JNumber 1)] = Some [(''a'', JNumber 1)]"
    "merge_pattern plain_person [(''a'', JNumber 1)] = Some [(''a'', JNumber 1)]"
    by (simp_all add: person_def plain_person_def run_merge_eval)
  have h4: "matching (label person) [(''a'', JNumber 1)] [] = []"
    "matching (label plain_person) [(''a'', JNumber 1)] [] = []"
    by (simp_all add: matching_def)
  have h5: "matching (label person) [(''a'', JNumber 1)] [stamped_a] \<noteq> []"
    by (simp add: person_def stamped_a_def run_merge_eval)
  have h6: "timestamp plain_person = []" "well_named plain_person"
    by (simp_all add: plain_person_def default_service_def well_named_def plain_name_def
        backquote_def)
  from t1 h1 have c1: "cypher (createQuery person [(''a'', JNumber 1)])
       = ''CREATE (n:`'' @ label person @ ''`) SET n=$props SET n.`'' @ timestamp person
         @ ''` = timestamp() RETURN properties(n) AS created''"
    by blast
  from t1 h1 have c2: "\<exists>n. run_create person 7 [] [(''a'', JNumber 1)] = Some ([] @ [n], [node_props n])
         \<and> map_of (node_props n) (timestamp person) = Some (JNumber 7)"
    by blast
  from t1 h1 h2 h3(1) h4(1)
  have c3: "\<exists>n. run_merge person 7 [] [(''a'', JNumber 1)] = Some ([] @ [n], [length ([] :: graph)])
         \<and> map_of (node_props n) (timestamp person) = Some (JNumber 7)"
    by blast
  from t2 h1 h2 h3(1) h5
  have c4: "run_merge person 9 [stamped_a] [(''a'', JNumber 1)]
       = Some ([stamped_a], matching (label person) [(''a'', JNumber 1)] [stamped_a])"
    by blast
  from t3 h6 have c5: "cypher (createQuery plain_person [(''a'', JNumber 1)])
       = ''CREATE (n:`'' @ label plain_person @ ''`) SET n=$props RETURN properties(n) AS created''"
    by blast
  from t3 h6 have c6: "run_create plain_person 7 [] [(''a'', JNumber 1)]
       = Some ([] @ [\<lparr>node_label = label plain_person,
                        node_props = toNeo4j plain_person [(''a'', JNumber 1)]\<rparr>],
               [toNeo4j plain_person [(''a'', JNumber 1)]])"
    by blast
  from t3 h6 h2 h3(2) h4(2)
  have c7: "run_merge plain_person 7 [] [(''a'', JNumber 1)]
       = Some ([] @ [\<lparr>node_label = label plain_person, node_props = [(''a'', JNumber 1)]\<rparr>],
               [length ([] :: graph)])"
    by blast
  from h1 c1 c2 h2 h3 h4 c3 h5 c4 h6 c5 c6 c7 show ?thesis
    by (intro conjI) assumption+
qed

lemma run_merge_distinct_default:
  assumes "run_merge (default_service l ts) now g ps = Some (g1, ids)"
    and "run_merge (default_service l ts) now' g1 qs = Some (g2, ids')"
    and "ts \<notin> set (keys ps)"
    and "distinct (keys ps)" and "distinct (keys qs)"
    and "k \<in> set (keys ps)" and "k \<in> set (keys qs)"
    and "map_of ps k \<noteq> map_of qs k"
  shows "set ids \<inter> set ids' = {}"
proof -
  have "timestamp (default_service l ts) \<notin> set (keys ps)"
    using assms(3) by (simp add: default_service_def)
  moreover have "map_of (toNeo4j (default_service l ts) ps) k
      \<noteq> map_of (toNeo4j (default_service l ts) qs) k"
    using assms(4,5,8) by (simp add: default_toNeo4j_id)
  ultimately show ?thesis
    using run_merge_distinct_nodes [OF assms(1,2) _ assms(6,7)] by blast
qed

text \<open>
  C4, as the claim states it, fails, in both halves. A pattern matches every node that
  has its properties, whatever else the node has: after a merge of \<^verbatim>\<open>{a: 1, b: 2}\<close> on
  the empty graph, a merge of the different bag \<^verbatim>\<open>{a: 1}\<close> binds the node the first one
  created. With the timestamp property \<^verbatim>\<open>createdAt\<close>, a merge of \<^verbatim>\<open>{createdAt: 5}\<close>
  at the time 7 creates a node stamped 7, which the same bag does not match: the second
  merge of the identical bag creates a second node, and the different bag
  \<^verbatim>\<open>{createdAt: 7}\<close> binds the first. With a mapping hook that stores 0 for every
  value, the bags \<^verbatim>\<open>{a: 1}\<close> and \<^verbatim>\<open>{a: 2}\<close> bind the same node.
\<close>

theorem merge_subset_counterexample:
  "[(''a'', JNumber 1), (''b'', JNumber 2)] \<noteq> [(''a'', JNumber 1)]
   \<and> run_merge plain_person 0 [] [(''a'', JNumber 1), (''b'', JNumber 2)] = Some ([a_and_b], [0])
   \<and> run_merge plain_person 0 [a_and_b] [(''a'', JNumber 1)] = Some ([a_and_b], [0])
   \<and> run_merge person 7 [] [(''createdAt'', JNumber 5)] = Some ([stamped_only], [0])
   \<and> run_merge person 7 [stamped_only] [(''createdAt'', JNumber 5)]
       = Some ([stamped_only, stamped_only], [1])
   \<and> run_merge person 7 [stamped_only] [(''createdAt'', JNumber 7)] = Some ([stamped_only], [0])
   \<and> run_merge zeroing 0 [] [(''a'', JNumber 1)] = Some ([zero_a], [0])
   \<and> run_merge zeroing 0 [zero_a] [(''a'', JNumber 2)] = Some ([zero_a], [0])"
  by (simp add: plain_person_def person_def zeroing_def a_and_b_def stamped_only_def zero_a_def
      run_merge_eval)

text \<open>
  C4, amended. The statement of \<^verbatim>\<open>merge\<close> uses the whole bag as the match key: every
  key of the bag is in the pattern, between backquotes, with its value read in the bound
  parameter \<^verbatim>\<open>$props\<close>, which is the mapped bag. A merge binds at least one node. When
  the bag does not hold the timestamp property, a second merge of the same bag changes
  nothing and binds the same nodes, and a later merge of a bag that shares a key with it
  and whose mapped bag gives another value to that key binds none of its nodes; with the
  mapping of the base class, that is: of a bag that gives another value to a key the
  two bags share.
\<close>

theorem merge_whole_bag_key:
  "cypher (mergeQuery svc ps)
     = ''MERGE (n:`'' @ label svc @ ''`{''
       @ join_with '','' (map (\<lambda>k. ''`'' @ k @ ''`:$props.`'' @ k @ ''`'') (keys ps)) @ ''})''
       @ (if timestamp svc \<noteq> [] then '' ON CREATE SET n.`'' @ timestamp svc @ ''` = timestamp()'' else [])
       @ '' RETURN properties(n) AS merged''
   \<and> params (options (mergeQuery svc ps)) = [(''props'', ParamMap (toNeo4j svc ps))]
   \<and> (merge_pattern svc ps = Some pat \<longrightarrow>
        keys pat = keys ps \<and> (\<forall>k \<in> set (keys ps). map_of pat k = map_of (toNeo4j svc ps) k))
   \<and> (run_merge svc now g ps = Some (g1, ids) \<longrightarrow> ids \<noteq> [] \<and> (\<forall>i \<in> set ids. i < length g1))
   \<and> (run_merge svc now g ps = Some (g1, ids) \<and> timestamp svc \<notin> set (keys ps) \<longrightarrow>
        run_merge svc now' g1 ps = Some (g1, ids))
   \<and> (run_merge svc now g ps = Some (g1, ids) \<and> run_merge svc now' g1 qs = Some (g2, ids')
        \<and> timestamp svc \<notin> set (keys ps) \<and> k \<in> set (keys ps) \<and> k \<in> set (keys qs)
        \<and> map_of (toNeo4j svc ps) k \<noteq> map_of (toNeo4j svc qs) k \<longrightarrow>
        set ids \<inter> set ids' = {})
   \<and> (run_merge (default_service l ts) now g ps = Some (g1, ids)
        \<and> run_merge (default_service l ts) now' g1 qs = Some (g2, ids')
        \<and> ts \<notin> set (keys ps) \<and> distinct (keys ps) \<and> distinct (keys qs)
        \<and> k \<in> set (keys ps) \<and> k \<in> set (keys qs) \<and> map_of ps k \<noteq> map_of qs k \<longrightarrow>
        set ids \<inter> set ids' = {})"
proof -
  have "merge_entry = (\<lambda>k. ''`'' @ k @ ''`:$props.`'' @ k @ ''`'')"
    by (rule ext) (simp add: merge_entry_def)
  then have body: "cypher (mergeQuery svc ps)
     = ''MERGE (n:`'' @ label svc @ ''`{''
       @ join_with '','' (map (\<lambda>k. ''`'' @ k @ ''`:$props.`'' @ k @ ''`'') (keys ps)) @ ''})''
       @ (if timestamp svc \<noteq> [] then '' ON CREATE SET n.`'' @ timestamp svc @ ''` = timestamp()'' else [])
       @ '' RETURN properties(n) AS merged''"
    by (simp add: mergeQuery_def)
  have par: "params (options (mergeQuery svc ps)) = [(''props'', ParamMap (toNeo4j svc ps))]"
    by (simp add: mergeQuery_def)
  have pat: "merge_pattern svc ps = Some pat \<longrightarrow>
        keys pat = keys ps \<and> (\<forall>k \<in> set (keys ps). map_of pat k = map_of (toNeo4j svc ps) k)"
    using merge_pattern_keys merge_pattern_lookup by fastforce
  have ne: "run_merge svc now g ps = Some (g1, ids) \<longrightarrow> ids \<noteq> [] \<and> (\<forall>i \<in> set ids. i < length g1)"
    using run_merge_prefix by blast
  have again: "run_merge svc now g ps = Some (g1, ids) \<and> timestamp svc \<notin> set (keys ps) \<longrightarrow>
        run_merge svc now' g1 ps = Some (g1, ids)"
    using run_merge_again by blast
  have dis: "run_merge svc now g ps = Some (g1, ids) \<and> run_merge svc now' g1 qs = Some (g2, ids')
        \<and> timestamp svc \<notin> set (keys ps) \<and> k \<in> set (keys ps) \<and> k \<in> set (keys qs)
        \<and> map_of (toNeo4j svc ps) k \<noteq> map_of (toNeo4j svc qs) k \<longrightarrow>
        set ids \<inter> set ids' = {}"
    using run_merge_distinct_nodes by blast
  have dflt: "run_merge (default_service l ts) now g ps = Some (g1, ids)
        \<and> run_merge (default_service l ts) now' g1 qs = Some (g2, ids')
        \<and> ts \<notin> set (keys ps) \<and> distinct (keys ps) \<and> distinct (keys qs)
        \<and> k \<in> set (keys ps) \<and> k \<in> set (keys qs) \<and> map_of ps k \<noteq> map_of qs k \<longrightarrow>
        set ids \<inter> set ids' = {}"
    using run_merge_distinct_default by blast
  from body par pat ne again dis dflt show ?thesis
    by (intro conjI) assumption+
qed

theorem merge_whole_bag_key_witness:
  "merge_pattern plain_person [(''a'', JNumber 1)] = Some [(''a'', JNumber 1)]
   \<and> keys [(''a'', JNumber 1)] = keys [(''a'', JNumber 1)]
   \<and> run_merge plain_person 0 [] [(''a'', JNumber 1)] = Some ([one_a], [0])
   \<and> timestamp plain_person \<notin> set (keys [(''a'', JNumber 1)])
   \<and> run_merge plain_person 5 [one_a] [(''a'', JNumber 1)] = Some ([one_a], [0])
   \<and> run_merge plain_person 5 [one_a] [(''a'', JNumber 2)] = Some ([one_a, two_a], [1])
   \<and> ''a'' \<in> set (keys [(''a'', JNumber 1)]) \<and> ''a'' \<in> set (keys [(''a'', JNumber 2)])
   \<and> map_of (toNeo4j plain_person [(''a'', JNumber 1)]) ''a''
       \<noteq> map_of (toNeo4j plain_person [(''a'', JNumber 2)]) ''a''
   \<and> run_merge (default_service ''Person'' ''createdAt'') 0 [] [(''a'', JNumber 1)]
       = Some ([stamped_zero], [0])
   \<and> run_merge (default_service ''Person'' ''createdAt'') 5 [stamped_zero] [(''a'', JNumber 2)]
       = Some ([stamped_zero, stamped_five], [1])
   \<and> ''createdAt'' \<notin> set (keys [(''a'', JNumber 1)])
   \<and> distinct (keys [(''a'', JNumber 1)]) \<and> distinct (keys [(''a'', JNumber 2)])
   \<and> map_of [(''a'', JNumber 1)] ''a'' \<noteq> map_of [(''a'', JNumber 2)] ''a''
   \<and> set [0 :: nat] \<inter> set [1] = {}"
proof -
  note t = merge_whole_bag_key [where svc = plain_person and ps = "[(''a'', JNumber 1)]"
      and pat = "[(''a'', JNumber 1)]" and now = 0 and g = "[]" and ?g1.0 = "[one_a]"
      and ids = "[0]" and now' = 5 and qs = "[(''a'', JNumber 2)]" and ?g2.0 = "[one_a, two_a]"
      and ids' = "[1]" and k = "''a''"]
  note u = merge_whole_bag_key [where svc = plain_person and ps = "[(''a'', JNumber 1)]"
      and l = "''Person''" and ts = "''createdAt''" and now = 0 and g = "[]"
      and ?g1.0 = "[stamped_zero]" and ids = "[0]" and now' = 5 and qs = "[(''a'', JNumber 2)]"
      and ?g2.0 = "[stamped_zero, stamped_five]" and ids' = "[1]" and k = "''a''"]
  have p: "merge_pattern plain_person [(''a'', JNumber 1)] = Some [(''a'', JNumber 1)]"
    by (simp add: plain_person_def run_merge_eval)
  from t p have kp: "keys [(''a'', JNumber 1)] = keys [(''a'', JNumber 1)]"
    by blast
  have r1: "run_merge plain_person 0 [] [(''a'', JNumber 1)] = Some ([one_a], [0])"
    by (simp add: plain_person_def one_a_def run_merge_eval)
  have ts: "timestamp plain_person \<notin> set (keys [(''a'', JNumber 1)])"
    by (simp add: plain_person_def default_service_def keys_def)
  from t r1 ts have again: "run_merge plain_person 5 [one_a] [(''a'', JNumber 1)] = Some ([one_a], [0])"
    by blast
  have r2: "run_merge plain_person 5 [one_a] [(''a'', JNumber 2)] = Some ([one_a, two_a], [1])"
    by (simp add: plain_person_def one_a_def two_a_def run_merge_eval)
  have k: "''a'' \<in> set (keys [(''a'', JNumber 1)])" "''a'' \<in> set (keys [(''a'', JNumber 2)])"
    by (simp_all add: keys_def)
  have d: "map_of (toNeo4j plain_person [(''a'', JNumber 1)]) ''a''
       \<noteq> map_of (toNeo4j plain_person [(''a'', JNumber 2)]) ''a''"
    by (simp add: plain_person_def default_service_def default_toNeo4j_def spread_def)
  from t r1 r2 ts k d have dis: "set [0 :: nat] \<inter> set [1] = {}"
    by blast
  have s1: "run_merge (default_service ''Person'' ''createdAt'') 0 [] [(''a'', JNumber 1)]
       = Some ([stamped_zero], [0])"
    by (simp add: stamped_zero_def run_merge_eval)
  have s2: "run_merge (default_service ''Person'' ''createdAt'') 5 [stamped_zero] [(''a'', JNumber 2)]
       = Some ([stamped_zero, stamped_five], [1])"
    by (simp add: stamped_zero_def stamped_five_def run_merge_eval)
  have h: "''createdAt'' \<notin> set (keys [(''a'', JNumber 1)])"
    "distinct (keys [(''a'', JNumber 1)])" "distinct (keys [(''a'', JNumber 2)])"
    "map_of [(''a'', JNumber 1)] ''a'' \<noteq> map_of [(''a'', JNumber 2)] ''a''"
    by (simp_all add: keys_def)
  from u s1 s2 h k have "set [0 :: nat] \<inter> set [1] = {}"
    by blast
  from p kp r1 ts again r2 k d s1 s2 h dis show ?thesis
    by (intro conjI) assumption+
qed

section \<open>Logging\<close>

lemma debug_no_logger: "logger svc = None \<Longrightarrow> debug svc a = Inr ()"
  by (simp add: debug_def)

lemma debug_quiet: "logger svc = Some d \<Longrightarrow> d a = None \<Longrightarrow> debug svc a = Inr ()"
  by (simp add: debug_def)

lemma debug_throws: "logger svc = Some d \<Longrightarrow> d a = Some e \<Longrightarrow> debug svc a = Inl e"
  by (simp add: debug_def)

lemma runWithDebug_no_logger:
  "logger svc = None \<Longrightarrow> runWithDebug svc cy opts = neo4jService_run svc cy opts"
  by (simp add: runWithDebug_def debug_no_logger and_then_def split: sum.splits)

lemma runWithDebug_quiet:
  assumes "logger svc = Some d" and "\<forall>a. d a = None"
  shows "runWithDebug svc cy opts = neo4jService_run svc cy opts"
  using assms by (simp add: runWithDebug_def debug_def and_then_def split: sum.splits)

lemma debug_unlogged [simp]: "debug (svc\<lparr>logger := None\<rparr>) a = Inr ()"
  by (simp add: debug_def)

lemma runWithDebug_unlogged [simp]:
  "runWithDebug (svc\<lparr>logger := None\<rparr>) cy opts = neo4jService_run svc cy opts"
  by (simp add: runWithDebug_def and_then_def split: sum.splits)

lemma queries_unlogged [simp]:
  "createQuery (svc\<lparr>logger := x\<rparr>) ps = createQuery svc ps"
  "mergeQuery (svc\<lparr>logger := x\<rparr>) ps = mergeQuery svc ps"
  "deleteQuery (svc\<lparr>logger := x\<rparr>) ps = deleteQuery svc ps"
  "findAllQuery (svc\<lparr>logger := x\<rparr>) pp = findAllQuery svc pp"
  "findByQuery (svc\<lparr>logger := x\<rparr>) fp = findByQuery svc fp"
  "searchByQuery (svc\<lparr>logger := x\<rparr>) sp = searchByQuery svc sp"
  by (simp_all add: createQuery_def mergeQuery_def deleteQuery_def findAllQuery_def
      findByQuery_def searchByQuery_def)

lemma first_row_unlogged [simp]: "first_row (svc\<lparr>logger := x\<rparr>) c res = first_row svc c res"
  by (simp add: first_row_def split: list.splits)

lemma quiet_operations:
  assumes "logger svc = None \<or> (\<exists>d. logger svc = Some d \<and> (\<forall>a. d a = None))"
  shows "create svc ps = create (svc\<lparr>logger := None\<rparr>) ps"
    and "merge svc ps = merge (svc\<lparr>logger := None\<rparr>) ps"
    and "delete svc ps = delete (svc\<lparr>logger := None\<rparr>) ps"
    and "findAll svc pp = findAll (svc\<lparr>logger := None\<rparr>) pp"
    and "findBy svc fp = findBy (svc\<lparr>logger := None\<rparr>) fp"
    and "searchBy svc sp = searchBy (svc\<lparr>logger := None\<rparr>) sp"
    and "runCypherConstraints svc = runCypherConstraints (svc\<lparr>logger := None\<rparr>)"
proof -
  from assms have d: "debug svc a = Inr ()" for a
    by (auto simp: debug_def)
  from assms have r: "runWithDebug svc cy opts = neo4jService_run svc cy opts" for cy opts
    by (auto simp: runWithDebug_no_logger runWithDebug_quiet)
  show "create svc ps = create (svc\<lparr>logger := None\<rparr>) ps"
    by (simp add: create_def d r and_then_def Let_def)
  show "merge svc ps = merge (svc\<lparr>logger := None\<rparr>) ps"
    by (simp add: merge_def d r and_then_def Let_def)
  show "delete svc ps = delete (svc\<lparr>logger := None\<rparr>) ps"
    by (simp add: delete_def d r and_then_def Let_def)
  show "findAll svc pp = findAll (svc\<lparr>logger := None\<rparr>) pp"
    by (simp add: findAll_def d r and_then_def Let_def)
  show "findBy svc fp = findBy (svc\<lparr>logger := None\<rparr>) fp"
    by (simp add: findBy_def d r and_then_def Let_def)
  show "searchBy svc sp = searchBy (svc\<lparr>logger := None\<rparr>) sp"
    by (simp add: searchBy_def d r and_then_def Let_def)
  show "runCypherConstraints svc = runCypherConstraints (svc\<lparr>logger := None\<rparr>)"
    by (simp add: runCypherConstraints_def d and_then_def Let_def)
qed

text \<open>
  C7, as the claim states it, fails: nothing catches an exception of the logger. With a
  logger whose \<^verbatim>\<open>debug\<close> throws, \<^verbatim>\<open>create\<close> fails with the logger's exception, where
  the same call without a logger returns the created object.
\<close>

theorem logger_failure_counterexample:
  "create (people\<lparr>logger := None\<rparr>) [(''a'', JNumber 1)] = Inr (Some [(''a'', JNumber 1)])
   \<and> create (people\<lparr>logger := Some failing_logger\<rparr>) [(''a'', JNumber 1)] = Inl (Failure ''logger down'')"
  by (simp add: create_def people_def debug_def and_then_def runWithDebug_def failing_logger_def
      createQuery_def first_row_def column_record_def default_fromNeo4j_def spread_def)


lemma runWithDebug_throws:
  assumes "logger svc = Some d"
    and "d (LogStatement cy opts) = Some e
       \<or> (d (LogStatement cy opts) = None
          \<and> (case neo4jService_run svc cy opts of Inl x \<Rightarrow> False | Inr rs \<Rightarrow> d (LogResults rs) = Some e))"
  shows "runWithDebug svc cy opts = Inl e"
  using assms
  by (auto simp: runWithDebug_def debug_def and_then_def split: sum.splits)

lemma throws_in_cases:
  assumes "throws_in svc entry q e"
  shows "debug svc entry = Inl e
       \<or> (debug svc entry = Inr () \<and> runWithDebug svc (cypher q) (options q) = Inl e)"
proof -
  from assms obtain d where d: "logger svc = Some d"
    and c: "d entry = Some e
          \<or> (d entry = None \<and> d (LogStatement (cypher q) (options q)) = Some e)
          \<or> (d entry = None \<and> d (LogStatement (cypher q) (options q)) = None
              \<and> (case neo4jService_run svc (cypher q) (options q) of
                    Inl x \<Rightarrow> False
                  | Inr rs \<Rightarrow> d (LogResults rs) = Some e))"
    by (auto simp: throws_in_def split: option.splits)
  from c show ?thesis
  proof (elim disjE)
    assume "d entry = Some e"
    with d show ?thesis by (simp add: debug_throws)
  next
    assume "d entry = None \<and> d (LogStatement (cypher q) (options q)) = Some e"
    with d runWithDebug_throws [OF d, of "cypher q" "options q" e] show ?thesis
      by (simp add: debug_quiet)
  next
    assume "d entry = None \<and> d (LogStatement (cypher q) (options q)) = None
              \<and> (case neo4jService_run svc (cypher q) (options q) of
                    Inl x \<Rightarrow> False
                  | Inr rs \<Rightarrow> d (LogResults rs) = Some e)"
    with d runWithDebug_throws [OF d, of "cypher q" "options q" e] show ?thesis
      by (simp add: debug_quiet)
  qed
qed

lemma throwing_operations:
  shows "throws_in svc (LogText (''create('' @ JSON_stringify_bag ps @ '')'')) (createQuery svc ps) e
           \<Longrightarrow> create svc ps = Inl e"
    and "throws_in svc (LogText (''merge('' @ JSON_stringify_bag ps @ '')'')) (mergeQuery svc ps) e
           \<Longrightarrow> merge svc ps = Inl e"
    and "throws_in svc (LogText (''delete('' @ JSON_stringify_bag ps @ '')'')) (deleteQuery svc ps) e
           \<Longrightarrow> delete svc ps = Inl e"
    and "throws_in svc (LogText (''findAll('' @ page_params_json pp @ '')'')) (findAllQuery svc pp) e
           \<Longrightarrow> findAll svc pp = Inl e"
    and "throws_in svc (LogText (''findBy('' @ find_params_json fp @ '')'')) (findByQuery svc fp) e
           \<Longrightarrow> findBy svc fp = Inl e"
    and "throws_in svc (LogText (''findBy('' @ search_params_json sp @ '')'')) (searchByQuery svc sp) e
           \<Longrightarrow> searchBy svc sp = Inl e"
  using throws_in_cases [of svc _ _ e]
  by (fastforce simp: create_def merge_def delete_def findAll_def findBy_def searchBy_def
      and_then_def Let_def)+

text \<open>
  C7, amended. A missing logger is not an error: without one the log calls do nothing
  and \<^verbatim>\<open>_runWithDebug\<close> is the run of the statement. A logger whose \<^verbatim>\<open>debug\<close> returns
  never changes the result of any operation: the result is the one without a logger. An
  exception thrown by \<^verbatim>\<open>debug\<close> is not caught. Each of \<^verbatim>\<open>create\<close>, \<^verbatim>\<open>merge\<close>,
  \<^verbatim>\<open>delete\<close>, \<^verbatim>\<open>findAll\<close>, \<^verbatim>\<open>findBy\<close> and \<^verbatim>\<open>searchBy\<close> fails with it, be it thrown
  on the line logged at the entry of the operation, on the statement before the run, or
  on the results after the run; \<^verbatim>\<open>runCypherConstraints\<close>, which logs at its entry only,
  fails with an exception thrown there.
\<close>

theorem logger_optional_not_isolated:
  "(logger svc = None \<longrightarrow>
      debug svc a = Inr () \<and> runWithDebug svc cy opts = neo4jService_run svc cy opts)
   \<and> (logger svc = None \<or> (\<exists>d. logger svc = Some d \<and> (\<forall>a. d a = None)) \<longrightarrow>
        create svc ps = create (svc\<lparr>logger := None\<rparr>) ps
        \<and> merge svc ps = merge (svc\<lparr>logger := None\<rparr>) ps
        \<and> delete svc ps = delete (svc\<lparr>logger := None\<rparr>) ps
        \<and> findAll svc pp = findAll (svc\<lparr>logger := None\<rparr>) pp
        \<and> findBy svc fp = findBy (svc\<lparr>logger := None\<rparr>) fp
        \<and> searchBy svc sp = searchBy (svc\<lparr>logger := None\<rparr>) sp
        \<and> runCypherConstraints svc = runCypherConstraints (svc\<lparr>logger := None\<rparr>))
   \<and> (logger svc = Some d \<and> d (LogStatement cy opts) = Some e \<longrightarrow>
        runWithDebug svc cy opts = Inl e)
   \<and> (logger svc = Some d \<and> d (LogStatement cy opts) = None
        \<and> neo4jService_run svc cy opts = Inr rs \<and> d (LogResults rs) = Some e \<longrightarrow>
        runWithDebug svc cy opts = Inl e)
   \<and> (throws_in svc (LogText (''create('' @ JSON_stringify_bag ps @ '')'')) (createQuery svc ps) e
        \<longrightarrow> create svc ps = Inl e)
   \<and> (throws_in svc (LogText (''merge('' @ JSON_stringify_bag ps @ '')'')) (mergeQuery svc ps) e
        \<longrightarrow> merge svc ps = Inl e)
   \<and> (throws_in svc (LogText (''delete('' @ JSON_stringify_bag ps @ '')'')) (deleteQuery svc ps) e
        \<longrightarrow> delete svc ps = Inl e)
   \<and> (throws_in svc (LogText (''findAll('' @ page_params_json pp @ '')'')) (findAllQuery svc pp) e
        \<longrightarrow> findAll svc pp = Inl e)
   \<and> (throws_in svc (LogText (''findBy('' @ find_params_json fp @ '')'')) (findByQuery svc fp) e
        \<longrightarrow> findBy svc fp = Inl e)
   \<and> (throws_in svc (LogText (''findBy('' @ search_params_json sp @ '')'')) (searchByQuery svc sp) e
        \<longrightarrow> searchBy svc sp = Inl e)
   \<and> (logger svc = Some d \<and> d (LogText ''runCypherConstraints()'') = Some e \<longrightarrow>
        runCypherConstraints svc = Inl e)"
proof -
  have a: "logger svc = None \<longrightarrow>
      debug svc a = Inr () \<and> runWithDebug svc cy opts = neo4jService_run svc cy opts"
    by (simp add: debug_no_logger runWithDebug_no_logger)
  have b: "logger svc = None \<or> (\<exists>d. logger svc = Some d \<and> (\<forall>a. d a = None)) \<longrightarrow>
        create svc ps = create (svc\<lparr>logger := None\<rparr>) ps
        \<and> merge svc ps = merge (svc\<lparr>logger := None\<rparr>) ps
        \<and> delete svc ps = delete (svc\<lparr>logger := None\<rparr>) ps
        \<and> findAll svc pp = findAll (svc\<lparr>logger := None\<rparr>) pp
        \<and> findBy svc fp = findBy (svc\<lparr>logger := None\<rparr>) fp
        \<and> searchBy svc sp = searchBy (svc\<lparr>logger := None\<rparr>) sp
        \<and> runCypherConstraints svc = runCypherConstraints (svc\<lparr>logger := None\<rparr>)"
    using quiet_operations [of svc] by blast
  have c: "logger svc = Some d \<and> d (LogStatement cy opts) = Some e \<longrightarrow>
        runWithDebug svc cy opts = Inl e"
    by (simp add: runWithDebug_def debug_def and_then_def)
  have d: "logger svc = Some d \<and> d (LogStatement cy opts) = None
        \<and> neo4jService_run svc cy opts = Inr rs \<and> d (LogResults rs) = Some e \<longrightarrow>
        runWithDebug svc cy opts = Inl e"
    by (simp add: runWithDebug_def debug_def and_then_def)
  have o1: "throws_in svc (LogText (''create('' @ JSON_stringify_bag ps @ '')'')) (createQuery svc ps) e
        \<longrightarrow> create svc ps = Inl e"
    and o2: "throws_in svc (LogText (''merge('' @ JSON_stringify_bag ps @ '')'')) (mergeQuery svc ps) e
        \<longrightarrow> merge svc ps = Inl e"
    and o3: "throws_in svc (LogText (''delete('' @ JSON_stringify_bag ps @ '')'')) (deleteQuery svc ps) e
        \<longrightarrow> delete svc ps = Inl e"
    and o4: "throws_in svc (LogText (''findAll('' @ page_params_json pp @ '')'')) (findAllQuery svc pp) e
        \<longrightarrow> findAll svc pp = Inl e"
    and o5: "throws_in svc (LogText (''findBy('' @ find_params_json fp @ '')'')) (findByQuery svc fp) e
        \<longrightarrow> findBy svc fp = Inl e"
    and o6: "throws_in svc (LogText (''findBy('' @ search_params_json sp @ '')'')) (searchByQuery svc sp) e
        \<longrightarrow> searchBy svc sp = Inl e"
    by (intro impI; erule throwing_operations)+
  have o7: "logger svc = Some d \<and> d (LogText ''runCypherConstraints()'') = Some e \<longrightarrow>
        runCypherConstraints svc = Inl e"
    by (simp add: runCypherConstraints_def debug_def and_then_def)
  from a b c d o1 o2 o3 o4 o5 o6 o7 show ?thesis
    by (intro conjI) assumption+
qed

theorem logger_optional_not_isolated_witness:
  "logger people = None
   \<and> debug people (LogText []) = Inr ()
   \<and> (logger (people\<lparr>logger := Some quiet_logger\<rparr>) = None
       \<or> (\<exists>d. logger (people\<lparr>logger := Some quiet_logger\<rparr>) = Some d \<and> (\<forall>a. d a = None)))
   \<and> create (people\<lparr>logger := Some quiet_logger\<rparr>) [(''a'', JNumber 1)]
       = create (people\<lparr>logger := Some quiet_logger\<rparr>\<lparr>logger := None\<rparr>) [(''a'', JNumber 1)]
   \<and> logger (people\<lparr>logger := Some failing_logger\<rparr>) = Some failing_logger
   \<and> failing_logger (LogStatement [] \<lparr>params = [], sessionOptions = None\<rparr>) = Some (Failure ''logger down'')
   \<and> runWithDebug (people\<lparr>logger := Some failing_logger\<rparr>) [] \<lparr>params = [], sessionOptions = None\<rparr> = Inl (Failure ''logger down'')
   \<and> logger (people\<lparr>logger := Some results_logger\<rparr>) = Some results_logger
   \<and> results_logger (LogStatement [] \<lparr>params = [], sessionOptions = None\<rparr>) = None
   \<and> neo4jService_run (people\<lparr>logger := Some results_logger\<rparr>) [] \<lparr>params = [], sessionOptions = None\<rparr> = Inr [[(''created'', DbMap [(''a'', JNumber 1)])]]
   \<and> results_logger (LogResults [[(''created'', DbMap [(''a'', JNumber 1)])]]) = Some (Failure ''logger down'')
   \<and> runWithDebug (people\<lparr>logger := Some results_logger\<rparr>) [] \<lparr>params = [], sessionOptions = None\<rparr> = Inl (Failure ''logger down'')
   \<and> throws_in (people\<lparr>logger := Some failing_logger\<rparr>) (LogText (''create('' @ JSON_stringify_bag [(''a'', JNumber 1)] @ '')'')) (createQuery (people\<lparr>logger := Some failing_logger\<rparr>) [(''a'', JNumber 1)]) (Failure ''logger down'')
   \<and> create (people\<lparr>logger := Some failing_logger\<rparr>) [(''a'', JNumber 1)] = Inl (Failure ''logger down'')
   \<and> throws_in (people\<lparr>logger := Some statement_logger\<rparr>) (LogText (''merge('' @ JSON_stringify_bag [(''a'', JNumber 1)] @ '')'')) (mergeQuery (people\<lparr>logger := Some statement_logger\<rparr>) [(''a'', JNumber 1)]) (Failure ''logger down'')
   \<and> merge (people\<lparr>logger := Some statement_logger\<rparr>) [(''a'', JNumber 1)] = Inl (Failure ''logger down'')
   \<and> throws_in (people\<lparr>logger := Some results_logger\<rparr>) (LogText (''delete('' @ JSON_stringify_bag [(''a'', JNumber 1)] @ '')'')) (deleteQuery (people\<lparr>logger := Some results_logger\<rparr>) [(''a'', JNumber 1)]) (Failure ''logger down'')
   \<and> delete (people\<lparr>logger := Some results_logger\<rparr>) [(''a'', JNumber 1)] = Inl (Failure ''logger down'')
   \<and> throws_in (people\<lparr>logger := Some failing_logger\<rparr>) (LogText (''findAll('' @ page_params_json (Some no_params) @ '')'')) (findAllQuery (people\<lparr>logger := Some failing_logger\<rparr>) (Some no_params)) (Failure ''logger down'')
   \<and> findAll (people\<lparr>logger := Some failing_logger\<rparr>) (Some no_params) = Inl (Failure ''logger down'')
   \<and> throws_in (people\<lparr>logger := Some statement_logger\<rparr>) (LogText (''findBy('' @ find_params_json (by_name ''x'') @ '')'')) (findByQuery (people\<lparr>logger := Some statement_logger\<rparr>) (by_name ''x'')) (Failure ''logger down'')
   \<and> findBy (people\<lparr>logger := Some statement_logger\<rparr>) (by_name ''x'') = Inl (Failure ''logger down'')
   \<and> throws_in (people\<lparr>logger := Some results_logger\<rparr>) (LogText (''findBy('' @ search_params_json (title_search [''red'']) @ '')'')) (searchByQuery (people\<lparr>logger := Some results_logger\<rparr>) (title_search [''red''])) (Failure ''logger down'')
   \<and> searchBy (people\<lparr>logger := Some results_logger\<rparr>) (title_search [''red'']) = Inl (Failure ''logger down'')
   \<and> failing_logger (LogText ''runCypherConstraints()'') = Some (Failure ''logger down'')
   \<and> runCypherConstraints (people\<lparr>logger := Some failing_logger\<rparr>) = Inl (Failure ''logger down'')"
proof -
  have h1: "logger people = None"
    by (simp add: people_def)
  from logger_optional_not_isolated [where svc = "people"
      and a = "LogText []"
      and cy = "[]"
      and opts = "\<lparr>params = [], sessionOptions = None\<rparr>"
      and ps = "[(''a'', JNumber 1)]"
      and pp = "Some no_params"
      and fp = "by_name ''x''"
      and sp = "title_search [''red'']"
      and d = "failing_logger"
      and e = "Failure ''logger down''"
      and rs = "[[(''created'', DbMap [(''a'', JNumber 1)])]]"]
  have "logger people = None \<longrightarrow>
      debug people (LogText []) = Inr ()
      \<and> runWithDebug people [] \<lparr>params = [], sessionOptions = None\<rparr> = neo4jService_run people [] \<lparr>params = [], sessionOptions = None\<rparr>"
    by (elim conjE)
  with h1 have "debug people (LogText []) = Inr ()
      \<and> runWithDebug people [] \<lparr>params = [], sessionOptions = None\<rparr> = neo4jService_run people [] \<lparr>params = [], sessionOptions = None\<rparr>"
    by (rule rev_mp)
  then have c1: "debug people (LogText []) = Inr ()"
    by (rule conjunct1)
  have h2: "logger (people\<lparr>logger := Some quiet_logger\<rparr>) = None
       \<or> (\<exists>d. logger (people\<lparr>logger := Some quiet_logger\<rparr>) = Some d \<and> (\<forall>a. d a = None))"
    by (simp add: quiet_logger_def)
  from logger_optional_not_isolated [where svc = "people\<lparr>logger := Some quiet_logger\<rparr>"
      and a = "LogText []"
      and cy = "[]"
      and opts = "\<lparr>params = [], sessionOptions = None\<rparr>"
      and ps = "[(''a'', JNumber 1)]"
      and pp = "Some no_params"
      and fp = "by_name ''x''"
      and sp = "title_search [''red'']"
      and d = "failing_logger"
      and e = "Failure ''logger down''"
      and rs = "[[(''created'', DbMap [(''a'', JNumber 1)])]]"]
  have "logger (people\<lparr>logger := Some quiet_logger\<rparr>) = None
       \<or> (\<exists>d. logger (people\<lparr>logger := Some quiet_logger\<rparr>) = Some d \<and> (\<forall>a. d a = None)) \<longrightarrow>
        create (people\<lparr>logger := Some quiet_logger\<rparr>) [(''a'', JNumber 1)] = create (people\<lparr>logger := Some quiet_logger\<rparr>\<lparr>logger := None\<rparr>) [(''a'', JNumber 1)]
        \<and> merge (people\<lparr>logger := Some quiet_logger\<rparr>) [(''a'', JNumber 1)] = merge (people\<lparr>logger := Some quiet_logger\<rparr>\<lparr>logger := None\<rparr>) [(''a'', JNumber 1)]
        \<and> delete (people\<lparr>logger := Some quiet_logger\<rparr>) [(''a'', JNumber 1)] = delete (people\<lparr>logger := Some quiet_logger\<rparr>\<lparr>logger := None\<rparr>) [(''a'', JNumber 1)]
        \<and> findAll (people\<lparr>logger := Some quiet_logger\<rparr>) (Some no_params) = findAll (people\<lparr>logger := Some quiet_logger\<rparr>\<lparr>logger := None\<rparr>) (Some no_params)
        \<and> findBy (people\<lparr>logger := Some quiet_logger\<rparr>) (by_name ''x'') = findBy (people\<lparr>logger := Some quiet_logger\<rparr>\<lparr>logger := None\<rparr>) (by_name ''x'')
        \<and> searchBy (people\<lparr>logger := Some quiet_logger\<rparr>) (title_search [''red'']) = searchBy (people\<lparr>logger := Some quiet_logger\<rparr>\<lparr>logger := None\<rparr>) (title_search [''red''])
        \<and> runCypherConstraints (people\<lparr>logger := Some quiet_logger\<rparr>) = runCypherConstraints (people\<lparr>logger := Some quiet_logger\<rparr>\<lparr>logger := None\<rparr>)"
    by (elim conjE)
  with h2 have "create (people\<lparr>logger := Some quiet_logger\<rparr>) [(''a'', JNumber 1)] = create (people\<lparr>logger := Some quiet_logger\<rparr>\<lparr>logger := None\<rparr>) [(''a'', JNumber 1)]
        \<and> merge (people\<lparr>logger := Some quiet_logger\<rparr>) [(''a'', JNumber 1)] = merge (people\<lparr>logger := Some quiet_logger\<rparr>\<lparr>logger := None\<rparr>) [(''a'', JNumber 1)]
        \<and> delete (people\<lparr>logger := Some quiet_logger\<rparr>) [(''a'', JNumber 1)] = delete (people\<lparr>logger := Some quiet_logger\<rparr>\<lparr>logger := None\<rparr>) [(''a'', JNumber 1)]
        \<and> findAll (people\<lparr>logger := Some quiet_logger\<rparr>) (Some no_params) = findAll (people\<lparr>logger := Some quiet_logger\<rparr>\<lparr>logger := None\<rparr>) (Some no_params)
        \<and> findBy (people\<lparr>logger := Some quiet_logger\<rparr>) (by_name ''x'') = findBy (people\<lparr>logger := Some quiet_logger\<rparr>\<lparr>logger := None\<rparr>) (by_name ''x'')
        \<and> searchBy (people\<lparr>logger := Some quiet_logger\<rparr>) (title_search [''red'']) = searchBy (people\<lparr>logger := Some quiet_logger\<rparr>\<lparr>logger := None\<rparr>) (title_search [''red''])
        \<and> runCypherConstraints (people\<lparr>logger := Some quiet_logger\<rparr>) = runCypherConstraints (people\<lparr>logger := Some quiet_logger\<rparr>\<lparr>logger := None\<rparr>)"
    by (rule rev_mp)
  then have c2: "create (people\<lparr>logger := Some quiet_logger\<rparr>) [(''a'', JNumber 1)]
      = create (people\<lparr>logger := Some quiet_logger\<rparr>\<lparr>logger := None\<rparr>) [(''a'', JNumber 1)]"
    by (rule conjunct1)
  have h_rs: "logger (people\<lparr>logger := Some failing_logger\<rparr>) = Some failing_logger \<and> failing_logger (LogStatement [] \<lparr>params = [], sessionOptions = None\<rparr>) = Some (Failure ''logger down'')"
    by (simp add: failing_logger_def)
  from logger_optional_not_isolated [where svc = "people\<lparr>logger := Some failing_logger\<rparr>"
      and a = "LogText []"
      and cy = "[]"
      and opts = "\<lparr>params = [], sessionOptions = None\<rparr>"
      and ps = "[(''a'', JNumber 1)]"
      and pp = "Some no_params"
      and fp = "by_name ''x''"
      and sp = "title_search [''red'']"
      and d = "failing_logger"
      and e = "Failure ''logger down''"
      and rs = "[[(''created'', DbMap [(''a'', JNumber 1)])]]"]
  have "logger (people\<lparr>logger := Some failing_logger\<rparr>) = Some failing_logger \<and> failing_logger (LogStatement [] \<lparr>params = [], sessionOptions = None\<rparr>) = Some (Failure ''logger down'') \<longrightarrow>
      runWithDebug (people\<lparr>logger := Some failing_logger\<rparr>) [] \<lparr>params = [], sessionOptions = None\<rparr> = Inl (Failure ''logger down'')"
    by (elim conjE)
  with h_rs have c_rs: "runWithDebug (people\<lparr>logger := Some failing_logger\<rparr>) [] \<lparr>params = [], sessionOptions = None\<rparr> = Inl (Failure ''logger down'')"
    by (rule rev_mp)
  have h_rr: "logger (people\<lparr>logger := Some results_logger\<rparr>) = Some results_logger \<and> results_logger (LogStatement [] \<lparr>params = [], sessionOptions = None\<rparr>) = None \<and> neo4jService_run (people\<lparr>logger := Some results_logger\<rparr>) [] \<lparr>params = [], sessionOptions = None\<rparr> = Inr [[(''created'', DbMap [(''a'', JNumber 1)])]] \<and> results_logger (LogResults [[(''created'', DbMap [(''a'', JNumber 1)])]]) = Some (Failure ''logger down'')"
    by (simp add: results_logger_def people_def)
  from logger_optional_not_isolated [where svc = "people\<lparr>logger := Some results_logger\<rparr>"
      and a = "LogText []"
      and cy = "[]"
      and opts = "\<lparr>params = [], sessionOptions = None\<rparr>"
      and ps = "[(''a'', JNumber 1)]"
      and pp = "Some no_params"
      and fp = "by_name ''x''"
      and sp = "title_search [''red'']"
      and d = "results_logger"
      and e = "Failure ''logger down''"
      and rs = "[[(''created'', DbMap [(''a'', JNumber 1)])]]"]
  have "logger (people\<lparr>logger := Some results_logger\<rparr>) = Some results_logger \<and> results_logger (LogStatement [] \<lparr>params = [], sessionOptions = None\<rparr>) = None \<and> neo4jService_run (people\<lparr>logger := Some results_logger\<rparr>) [] \<lparr>params = [], sessionOptions = None\<rparr> = Inr [[(''created'', DbMap [(''a'', JNumber 1)])]] \<and> results_logger (LogResults [[(''created'', DbMap [(''a'', JNumber 1)])]]) = Some (Failure ''logger down'') \<longrightarrow>
      runWithDebug (people\<lparr>logger := Some results_logger\<rparr>) [] \<lparr>params = [], sessionOptions = None\<rparr> = Inl (Failure ''logger down'')"
    by (elim conjE)
  with h_rr have c_rr: "runWithDebug (people\<lparr>logger := Some results_logger\<rparr>) [] \<lparr>params = [], sessionOptions = None\<rparr> = Inl (Failure ''logger down'')"
    by (rule rev_mp)
  have h_create: "throws_in (people\<lparr>logger := Some failing_logger\<rparr>) (LogText (''create('' @ JSON_stringify_bag [(''a'', JNumber 1)] @ '')'')) (createQuery (people\<lparr>logger := Some failing_logger\<rparr>) [(''a'', JNumber 1)]) (Failure ''logger down'')"
    by (simp add: throws_in_def people_def failing_logger_def)
  from logger_optional_not_isolated [where svc = "people\<lparr>logger := Some failing_logger\<rparr>"
      and a = "LogText []"
      and cy = "[]"
      and opts = "\<lparr>params = [], sessionOptions = None\<rparr>"
      and ps = "[(''a'', JNumber 1)]"
      and pp = "Some no_params"
      and fp = "by_name ''x''"
      and sp = "title_search [''red'']"
      and d = "failing_logger"
      and e = "Failure ''logger down''"
      and rs = "[[(''created'', DbMap [(''a'', JNumber 1)])]]"]
  have "throws_in (people\<lparr>logger := Some failing_logger\<rparr>) (LogText (''create('' @ JSON_stringify_bag [(''a'', JNumber 1)] @ '')'')) (createQuery (people\<lparr>logger := Some failing_logger\<rparr>) [(''a'', JNumber 1)]) (Failure ''logger down'') \<longrightarrow>
      create (people\<lparr>logger := Some failing_logger\<rparr>) [(''a'', JNumber 1)] = Inl (Failure ''logger down'')"
    by (elim conjE)
  with h_create have c_create: "create (people\<lparr>logger := Some failing_logger\<rparr>) [(''a'', JNumber 1)] = Inl (Failure ''logger down'')"
    by (rule rev_mp)
  have h_merge: "throws_in (people\<lparr>logger := Some statement_logger\<rparr>) (LogText (''merge('' @ JSON_stringify_bag [(''a'', JNumber 1)] @ '')'')) (mergeQuery (people\<lparr>logger := Some statement_logger\<rparr>) [(''a'', JNumber 1)]) (Failure ''logger down'')"
    by (simp add: throws_in_def people_def statement_logger_def)
  from logger_optional_not_isolated [where svc = "people\<lparr>logger := Some statement_logger\<rparr>"
      and a = "LogText []"
      and cy = "[]"
      and opts = "\<lparr>params = [], sessionOptions = None\<rparr>"
      and ps = "[(''a'', JNumber 1)]"
      and pp = "Some no_params"
      and fp = "by_name ''x''"
      and sp = "title_search [''red'']"
      and d = "statement_logger"
      and e = "Failure ''logger down''"
      and rs = "[[(''created'', DbMap [(''a'', JNumber 1)])]]"]
  have "throws_in (people\<lparr>logger := Some statement_logger\<rparr>) (LogText (''merge('' @ JSON_stringify_bag [(''a'', JNumber 1)] @ '')'')) (mergeQuery (people\<lparr>logger := Some statement_logger\<rparr>) [(''a'', JNumber 1)]) (Failure ''logger down'') \<longrightarrow>
      merge (people\<lparr>logger := Some statement_logger\<rparr>) [(''a'', JNumber 1)] = Inl (Failure ''logger down'')"
    by (elim conjE)
  with h_merge have c_merge: "merge (people\<lparr>logger := Some statement_logger\<rparr>) [(''a'', JNumber 1)] = Inl (Failure ''logger down'')"
    by (rule rev_mp)
  have h_delete: "throws_in (people\<lparr>logger := Some results_logger\<rparr>) (LogText (''delete('' @ JSON_stringify_bag [(''a'', JNumber 1)] @ '')'')) (deleteQuery (people\<lparr>logger := Some results_logger\<rparr>) [(''a'', JNumber 1)]) (Failure ''logger down'')"
    by (simp add: throws_in_def people_def results_logger_def)
  from logger_optional_not_isolated [where svc = "people\<lparr>logger := Some results_logger\<rparr>"
      and a = "LogText []"
      and cy = "[]"
      and opts = "\<lparr>params = [], sessionOptions = None\<rparr>"
      and ps = "[(''a'', JNumber 1)]"
      and pp = "Some no_params"
      and fp = "by_name ''x''"
      and sp = "title_search [''red'']"
      and d = "results_logger"
      and e = "Failure ''logger down''"
      and rs = "[[(''created'', DbMap [(''a'', JNumber 1)])]]"]
  have "throws_in (people\<lparr>logger := Some results_logger\<rparr>) (LogText (''delete('' @ JSON_stringify_bag [(''a'', JNumber 1)] @ '')'')) (deleteQuery (people\<lparr>logger := Some results_logger\<rparr>) [(''a'', JNumber 1)]) (Failure ''logger down'') \<longrightarrow>
      delete (people\<lparr>logger := Some results_logger\<rparr>) [(''a'', JNumber 1)] = Inl (Failure ''logger down'')"
    by (elim conjE)
  with h_delete have c_delete: "delete (people\<lparr>logger := Some results_logger\<rparr>) [(''a'', JNumber 1)] = Inl (Failure ''logger down'')"
    by (rule rev_mp)
  have h_findAll: "throws_in (people\<lparr>logger := Some failing_logger\<rparr>) (LogText (''findAll('' @ page_params_json (Some no_params) @ '')'')) (findAllQuery (people\<lparr>logger := Some failing_logger\<rparr>) (Some no_params)) (Failure ''logger down'')"
    by (simp add: throws_in_def people_def failing_logger_def)
  from logger_optional_not_isolated [where svc = "people\<lparr>logger := Some failing_logger\<rparr>"
      and a = "LogText []"
      and cy = "[]"
      and opts = "\<lparr>params = [], sessionOptions = None\<rparr>"
      and ps = "[(''a'', JNumber 1)]"
      and pp = "Some no_params"
      and fp = "by_name ''x''"
      and sp = "title_search [''red'']"
      and d = "failing_logger"
      and e = "Failure ''logger down''"
      and rs = "[[(''created'', DbMap [(''a'', JNumber 1)])]]"]
  have "throws_in (people\<lparr>logger := Some failing_logger\<rparr>) (LogText (''findAll('' @ page_params_json (Some no_params) @ '')'')) (findAllQuery (people\<lparr>logger := Some failing_logger\<rparr>) (Some no_params)) (Failure ''logger down'') \<longrightarrow>
      findAll (people\<lparr>logger := Some failing_logger\<rparr>) (Some no_params) = Inl (Failure ''logger down'')"
    by (elim conjE)
  with h_findAll have c_findAll: "findAll (people\<lparr>logger := Some failing_logger\<rparr>) (Some no_params) = Inl (Failure ''logger down'')"
    by (rule rev_mp)
  have h_findBy: "throws_in (people\<lparr>logger := Some statement_logger\<rparr>) (LogText (''findBy('' @ find_params_json (by_name ''x'') @ '')'')) (findByQuery (people\<lparr>logger := Some statement_logger\<rparr>) (by_name ''x'')) (Failure ''logger down'')"
    by (simp add: throws_in_def people_def statement_logger_def)
  from logger_optional_not_isolated [where svc = "people\<lparr>logger := Some statement_logger\<rparr>"
      and a = "LogText []"
      and cy = "[]"
      and opts = "\<lparr>params = [], sessionOptions = None\<rparr>"
      and ps = "[(''a'', JNumber 1)]"
      and pp = "Some no_params"
      and fp = "by_name ''x''"
      and sp = "title_search [''red'']"
      and d = "statement_logger"
      and e = "Failure ''logger down''"
      and rs = "[[(''created'', DbMap [(''a'', JNumber 1)])]]"]
  have "throws_in (people\<lparr>logger := Some statement_logger\<rparr>) (LogText (''findBy('' @ find_params_json (by_name ''x'') @ '')'')) (findByQuery (people\<lparr>logger := Some statement_logger\<rparr>) (by_name ''x'')) (Failure ''logger down'') \<longrightarrow>
      findBy (people\<lparr>logger := Some statement_logger\<rparr>) (by_name ''x'') = Inl (Failure ''logger down'')"
    by (elim conjE)
  with h_findBy have c_findBy: "findBy (people\<lparr>logger := Some statement_logger\<rparr>) (by_name ''x'') = Inl (Failure ''logger down'')"
    by (rule rev_mp)
  have h_searchBy: "throws_in (people\<lparr>logger := Some results_logger\<rparr>) (LogText (''findBy('' @ search_params_json (title_search [''red'']) @ '')'')) (searchByQuery (people\<lparr>logger := Some results_logger\<rparr>) (title_search [''red''])) (Failure ''logger down'')"
    by (simp add: throws_in_def people_def results_logger_def)
  from logger_optional_not_isolated [where svc = "people\<lparr>logger := Some results_logger\<rparr>"
      and a = "LogText []"
      and cy = "[]"
      and opts = "\<lparr>params = [], sessionOptions = None\<rparr>"
      and ps = "[(''a'', JNumber 1)]"
      and pp = "Some no_params"
      and fp = "by_name ''x''"
      and sp = "title_search [''red'']"
      and d = "results_logger"
      and e = "Failure ''logger down''"
      and rs = "[[(''created'', DbMap [(''a'', JNumber 1)])]]"]
  have "throws_in (people\<lparr>logger := Some results_logger\<rparr>) (LogText (''findBy('' @ search_params_json (title_search [''red'']) @ '')'')) (searchByQuery (people\<lparr>logger := Some results_logger\<rparr>) (title_search [''red''])) (Failure ''logger down'') \<longrightarrow>
      searchBy (people\<lparr>logger := Some results_logger\<rparr>) (title_search [''red'']) = Inl (Failure ''logger down'')"
    by (elim conjE)
  with h_searchBy have c_searchBy: "searchBy (people\<lparr>logger := Some results_logger\<rparr>) (title_search [''red'']) = Inl (Failure ''logger down'')"
    by (rule rev_mp)
  have h_rc: "logger (people\<lparr>logger := Some failing_logger\<rparr>) = Some failing_logger \<and> failing_logger (LogText ''runCypherConstraints()'') = Some (Failure ''logger down'')"
    by (simp add: failing_logger_def)
  from logger_optional_not_isolated [where svc = "people\<lparr>logger := Some failing_logger\<rparr>"
      and a = "LogText []"
      and cy = "[]"
      and opts = "\<lparr>params = [], sessionOptions = None\<rparr>"
      and ps = "[(''a'', JNumber 1)]"
      and pp = "Some no_params"
      and fp = "by_name ''x''"
      and sp = "title_search [''red'']"
      and d = "failing_logger"
      and e = "Failure ''logger down''"
      and rs = "[[(''created'', DbMap [(''a'', JNumber 1)])]]"]
  have "logger (people\<lparr>logger := Some failing_logger\<rparr>) = Some failing_logger \<and> failing_logger (LogText ''runCypherConstraints()'') = Some (Failure ''logger down'') \<longrightarrow>
      runCypherConstraints (people\<lparr>logger := Some failing_logger\<rparr>) = Inl (Failure ''logger down'')"
    by (elim conjE)
  with h_rc have c_rc: "runCypherConstraints (people\<lparr>logger := Some failing_logger\<rparr>) = Inl (Failure ''logger down'')"
    by (rule rev_mp)
  from h1 c1 h2 c2 h_rs c_rs h_rr c_rr h_create c_create h_merge c_merge h_delete c_delete h_findAll c_findAll h_findBy c_findBy h_searchBy c_searchBy h_rc c_rc show ?thesis
    by (intro conjI) (elim conjE, assumption)+
qed

section \<open>The search with no term\<close>

lemma search_rows_no_terms: "terms ps = [] \<Longrightarrow> search_rows svc g ps = []"
  by (simp add: search_rows_def map_filter_def scored_no_terms)

lemma run_search_no_terms:
  "terms ps = [] \<Longrightarrow> search_accepted svc g ps \<Longrightarrow> run_search svc g ps = Some []"
  by (simp add: run_search_def search_rows_no_terms)

lemma search_database_label:
  assumes "label a = label b"
  shows "search_database a g ps = search_database b g ps"
proof -
  from assms have "searchByQuery a ps = searchByQuery b ps"
    and "run_search a g ps = run_search b g ps"
    by (simp_all add: searchByQuery_def run_search_def search_accepted_def search_rows_def)
  then show ?thesis
    by (intro ext) (simp add: search_database_def)
qed

lemma searchBy_on_database:
  assumes "logger ms = None \<or> (\<exists>d. logger ms = Some d \<and> (\<forall>a. d a = None))"
    and "neo4jService_run ms = search_database ms g qs"
  shows "searchBy ms qs
     = (case run_search ms g qs of
          None \<Rightarrow> Inl (Failure ''statement rejected'')
        | Some rows \<Rightarrow>
            map_rows (\<lambda>r. and_then (score_toInt r) (\<lambda>sc.
              Inr (fromNeo4j ms (column_record r ''matched''), sc))) (map reply_row rows))"
proof -
  from assms(1) have "searchBy ms qs = searchBy (ms\<lparr>logger := None\<rparr>) qs"
    by (rule quiet_operations)
  then show ?thesis
    by (simp add: searchBy_def assms(2) search_database_def and_then_def Let_def
        split: option.splits)
qed

text \<open>
  C5, as the claim states it, fails: with an empty list of terms \<^verbatim>\<open>searchBy\<close> does not
  return an empty result for every call, label and property, since the database does not
  run every statement. It rejects a negative skip and a negative limit, which the
  normalizer lets through; \<^verbatim>\<open>split\<close> fails on a property that is a number; and a
  backquote in the label or in the property name ends the quoted name early and leaves a
  text that cannot be read. In each case \<^verbatim>\<open>searchBy\<close> fails, as it does when the
  logger throws.
\<close>

theorem empty_terms_rejected_counterexample:
  "terms (no_terms ''title'' (Some (- 1)) None) = []
   \<and> searchBy (graph_service ''Doc'' [titled ''red''] (no_terms ''title'' (Some (- 1)) None))
        (no_terms ''title'' (Some (- 1)) None) = Inl (Failure ''statement rejected'')
   \<and> searchBy (graph_service ''Doc'' [titled ''red''] (no_terms ''title'' None (Some (- 1))))
        (no_terms ''title'' None (Some (- 1))) = Inl (Failure ''statement rejected'')
   \<and> searchBy (graph_service ''Doc'' [numbered] (no_terms ''title'' None None))
        (no_terms ''title'' None None) = Inl (Failure ''statement rejected'')
   \<and> searchBy (graph_service ''Doc'' [titled ''red''] (no_terms ''a`b'' None None))
        (no_terms ''a`b'' None None) = Inl (Failure ''statement rejected'')
   \<and> searchBy (graph_service ''a`b'' [titled ''red''] (no_terms ''title'' None None))
        (no_terms ''title'' None None) = Inl (Failure ''statement rejected'')
   \<and> searchBy ((graph_service ''Doc'' [titled ''red''] (no_terms ''title'' None None))
          \<lparr>logger := Some failing_logger\<rparr>)
        (no_terms ''title'' None None) = Inl (Failure ''logger down'')"
  by (simp add: searchBy_def graph_service_def no_terms_def debug_def runWithDebug_def
      failing_logger_def
      and_then_def search_database_def run_search_def search_accepted_def default_service_def
      searchByQuery_def plain_name_def backquote_def labelled_def text_or_absent_def
      titled_def numbered_def convertSkipLimit_def opt_field_def or_default_def neo4j_int_def)

text \<open>
  C5, amended. With an empty list of terms the candidate filter, an \<^verbatim>\<open>ANY\<close> over the
  empty list, is false for every node: no node passes it, whatever the label and the
  property. When the database runs the statement and the logger, if there is one, does
  not throw, \<^verbatim>\<open>searchBy\<close> returns an empty result: the database runs it when the label
  and the property name, not empty as names are, hold no backquote, the property is a
  string or absent on every node of the label, and skip and limit are not negative.
  When, for such names and such a logger, a node of the label holds a property that is
  not a string, or skip or limit is negative, \<^verbatim>\<open>searchBy\<close> fails.
\<close>

theorem empty_terms_empty_result:
  "\<not> search_candidate [] ws
   \<and> search_rows svc g (ps\<lparr>terms := []\<rparr>) = []
   \<and> (search_accepted svc g ps \<longrightarrow> run_search svc g (ps\<lparr>terms := []\<rparr>) = Some [])
   \<and> (terms qs = []
        \<and> plain_name (label ms) \<and> plain_name (propName qs)
        \<and> list_all (text_or_absent (propName qs)) (labelled (label ms) g)
        \<and> 0 \<le> sint (skip_int (convertSkipLimit (Some qs)))
        \<and> 0 \<le> sint (limit_int (convertSkipLimit (Some qs)))
        \<and> (logger ms = None \<or> (\<exists>d. logger ms = Some d \<and> (\<forall>a. d a = None)))
        \<and> neo4jService_run ms = search_database ms g qs
        \<longrightarrow> searchBy ms qs = Inr [])
   \<and> (plain_name (label ms) \<and> plain_name (propName qs)
        \<and> (sint (skip_int (convertSkipLimit (Some qs))) < 0
            \<or> sint (limit_int (convertSkipLimit (Some qs))) < 0
            \<or> \<not> list_all (text_or_absent (propName qs)) (labelled (label ms) g))
        \<and> (logger ms = None \<or> (\<exists>d. logger ms = Some d \<and> (\<forall>a. d a = None)))
        \<and> neo4jService_run ms = search_database ms g qs
        \<longrightarrow> searchBy ms qs = Inl (Failure ''statement rejected''))"
proof -
  have c1: "\<not> search_candidate [] ws"
    by (simp add: search_candidate_def)
  have c2: "search_rows svc g (ps\<lparr>terms := []\<rparr>) = []"
    by (simp add: search_rows_no_terms)
  have c3: "search_accepted svc g ps \<longrightarrow> run_search svc g (ps\<lparr>terms := []\<rparr>) = Some []"
    by (simp add: run_search_no_terms search_accepted_terms)
  have c4: "terms qs = []
        \<and> plain_name (label ms) \<and> plain_name (propName qs)
        \<and> list_all (text_or_absent (propName qs)) (labelled (label ms) g)
        \<and> 0 \<le> sint (skip_int (convertSkipLimit (Some qs)))
        \<and> 0 \<le> sint (limit_int (convertSkipLimit (Some qs)))
        \<and> (logger ms = None \<or> (\<exists>d. logger ms = Some d \<and> (\<forall>a. d a = None)))
        \<and> neo4jService_run ms = search_database ms g qs
        \<longrightarrow> searchBy ms qs = Inr []"
  proof (intro impI, elim conjE)
    assume t: "terms qs = []"
      and acc: "plain_name (label ms)" "plain_name (propName qs)"
        "list_all (text_or_absent (propName qs)) (labelled (label ms) g)"
        "0 \<le> sint (skip_int (convertSkipLimit (Some qs)))"
        "0 \<le> sint (limit_int (convertSkipLimit (Some qs)))"
      and q: "logger ms = None \<or> (\<exists>d. logger ms = Some d \<and> (\<forall>a. d a = None))"
      and r: "neo4jService_run ms = search_database ms g qs"
    from acc have "search_accepted ms g qs"
      by (simp add: search_accepted_def)
    with t have "run_search ms g qs = Some []"
      by (simp add: run_search_no_terms)
    then show "searchBy ms qs = Inr []"
      by (simp add: searchBy_on_database [OF q r])
  qed
  have c5: "plain_name (label ms) \<and> plain_name (propName qs)
        \<and> (sint (skip_int (convertSkipLimit (Some qs))) < 0
            \<or> sint (limit_int (convertSkipLimit (Some qs))) < 0
            \<or> \<not> list_all (text_or_absent (propName qs)) (labelled (label ms) g))
        \<and> (logger ms = None \<or> (\<exists>d. logger ms = Some d \<and> (\<forall>a. d a = None)))
        \<and> neo4jService_run ms = search_database ms g qs
        \<longrightarrow> searchBy ms qs = Inl (Failure ''statement rejected'')"
  proof (intro impI, elim conjE)
    assume rej: "sint (skip_int (convertSkipLimit (Some qs))) < 0
            \<or> sint (limit_int (convertSkipLimit (Some qs))) < 0
            \<or> \<not> list_all (text_or_absent (propName qs)) (labelled (label ms) g)"
      and q: "logger ms = None \<or> (\<exists>d. logger ms = Some d \<and> (\<forall>a. d a = None))"
      and r: "neo4jService_run ms = search_database ms g qs"
    from rej have "\<not> search_accepted ms g qs"
      by (auto simp: search_accepted_def)
    then have "run_search ms g qs = None"
      by (simp add: run_search_def)
    then show "searchBy ms qs = Inl (Failure ''statement rejected'')"
      by (simp add: searchBy_on_database [OF q r])
  qed
  from c1 c2 c3 c4 c5 show ?thesis
    by (intro conjI) assumption+
qed

lemma graph_service_run:
  "neo4jService_run (graph_service l g ps) = search_database (graph_service l g ps) g ps"
proof -
  have "neo4jService_run (graph_service l g ps) = search_database (default_service l []) g ps"
    by (simp add: graph_service_def)
  also have "\<dots> = search_database (graph_service l g ps) g ps"
    by (rule search_database_label) (simp add: default_service_def graph_service_def)
  finally show ?thesis .
qed

theorem empty_terms_empty_result_witness:
  "search_accepted (default_service ''Doc'' []) [titled ''red blue red''] (title_search [''red''])
   \<and> run_search (default_service ''Doc'' []) [titled ''red blue red''] ((title_search [''red''])\<lparr>terms := []\<rparr>) = Some []
   \<and> terms (no_terms ''title'' None None) = []
        \<and> plain_name (label (graph_service ''Doc'' [titled ''red blue red''] (no_terms ''title'' None None))) \<and> plain_name (propName (no_terms ''title'' None None))
        \<and> list_all (text_or_absent (propName (no_terms ''title'' None None))) (labelled (label (graph_service ''Doc'' [titled ''red blue red''] (no_terms ''title'' None None))) [titled ''red blue red''])
        \<and> 0 \<le> sint (skip_int (convertSkipLimit (Some (no_terms ''title'' None None))))
        \<and> 0 \<le> sint (limit_int (convertSkipLimit (Some (no_terms ''title'' None None))))
        \<and> (logger (graph_service ''Doc'' [titled ''red blue red''] (no_terms ''title'' None None)) = None \<or> (\<exists>d. logger (graph_service ''Doc'' [titled ''red blue red''] (no_terms ''title'' None None)) = Some d \<and> (\<forall>a. d a = None)))
        \<and> neo4jService_run (graph_service ''Doc'' [titled ''red blue red''] (no_terms ''title'' None None)) = search_database (graph_service ''Doc'' [titled ''red blue red''] (no_terms ''title'' None None)) [titled ''red blue red''] (no_terms ''title'' None None)
   \<and> searchBy (graph_service ''Doc'' [titled ''red blue red''] (no_terms ''title'' None None)) (no_terms ''title'' None None) = Inr []
   \<and> plain_name (label (graph_service ''Doc'' [numbered] (no_terms ''title'' None None))) \<and> plain_name (propName (no_terms ''title'' None None))
        \<and> (sint (skip_int (convertSkipLimit (Some (no_terms ''title'' None None)))) < 0
            \<or> sint (limit_int (convertSkipLimit (Some (no_terms ''title'' None None)))) < 0
            \<or> \<not> list_all (text_or_absent (propName (no_terms ''title'' None None))) (labelled (label (graph_service ''Doc'' [numbered] (no_terms ''title'' None None))) [numbered]))
        \<and> (logger (graph_service ''Doc'' [numbered] (no_terms ''title'' None None)) = None \<or> (\<exists>d. logger (graph_service ''Doc'' [numbered] (no_terms ''title'' None None)) = Some d \<and> (\<forall>a. d a = None)))
        \<and> neo4jService_run (graph_service ''Doc'' [numbered] (no_terms ''title'' None None)) = search_database (graph_service ''Doc'' [numbered] (no_terms ''title'' None None)) [numbered] (no_terms ''title'' None None)
   \<and> searchBy (graph_service ''Doc'' [numbered] (no_terms ''title'' None None)) (no_terms ''title'' None None) = Inl (Failure ''statement rejected'')
   \<and> plain_name (label (graph_service ''Doc'' [titled ''red blue red''] (no_terms ''title'' (Some (- 1)) None))) \<and> plain_name (propName (no_terms ''title'' (Some (- 1)) None))
        \<and> (sint (skip_int (convertSkipLimit (Some (no_terms ''title'' (Some (- 1)) None)))) < 0
            \<or> sint (limit_int (convertSkipLimit (Some (no_terms ''title'' (Some (- 1)) None)))) < 0
            \<or> \<not> list_all (text_or_absent (propName (no_terms ''title'' (Some (- 1)) None))) (labelled (label (graph_service ''Doc'' [titled ''red blue red''] (no_terms ''title'' (Some (- 1)) None))) [titled ''red blue red'']))
        \<and> (logger (graph_service ''Doc'' [titled ''red blue red''] (no_terms ''title'' (Some (- 1)) None)) = None \<or> (\<exists>d. logger (graph_service ''Doc'' [titled ''red blue red''] (no_terms ''title'' (Some (- 1)) None)) = Some d \<and> (\<forall>a. d a = None)))
        \<and> neo4jService_run (graph_service ''Doc'' [titled ''red blue red''] (no_terms ''title'' (Some (- 1)) None)) = search_database (graph_service ''Doc'' [titled ''red blue red''] (no_terms ''title'' (Some (- 1)) None)) [titled ''red blue red''] (no_terms ''title'' (Some (- 1)) None)
   \<and> searchBy (graph_service ''Doc'' [titled ''red blue red''] (no_terms ''title'' (Some (- 1)) None)) (no_terms ''title'' (Some (- 1)) None) = Inl (Failure ''statement rejected'')"
proof -
  have h_a: "search_accepted (default_service ''Doc'' []) [titled ''red blue red''] (title_search [''red''])"
    by (simp add: run_search_eval)
  from empty_terms_empty_result [where ws = "[]" and svc = "default_service ''Doc'' []"
      and g = "[titled ''red blue red'']" and ps = "title_search [''red'']"
      and qs = "no_terms ''title'' None None"
      and ms = "graph_service ''Doc'' [titled ''red blue red''] (no_terms ''title'' None None)"]
  have "search_accepted (default_service ''Doc'' []) [titled ''red blue red''] (title_search [''red''])
        \<longrightarrow> run_search (default_service ''Doc'' []) [titled ''red blue red''] ((title_search [''red''])\<lparr>terms := []\<rparr>) = Some []"
    by (elim conjE)
  with h_a have c_a: "run_search (default_service ''Doc'' []) [titled ''red blue red''] ((title_search [''red''])\<lparr>terms := []\<rparr>) = Some []"
    by (rule rev_mp)
  have h_b: "terms (no_terms ''title'' None None) = []
        \<and> plain_name (label (graph_service ''Doc'' [titled ''red blue red''] (no_terms ''title'' None None))) \<and> plain_name (propName (no_terms ''title'' None None))
        \<and> list_all (text_or_absent (propName (no_terms ''title'' None None))) (labelled (label (graph_service ''Doc'' [titled ''red blue red''] (no_terms ''title'' None None))) [titled ''red blue red''])
        \<and> 0 \<le> sint (skip_int (convertSkipLimit (Some (no_terms ''title'' None None))))
        \<and> 0 \<le> sint (limit_int (convertSkipLimit (Some (no_terms ''title'' None None))))
        \<and> (logger (graph_service ''Doc'' [titled ''red blue red''] (no_terms ''title'' None None)) = None \<or> (\<exists>d. logger (graph_service ''Doc'' [titled ''red blue red''] (no_terms ''title'' None None)) = Some d \<and> (\<forall>a. d a = None)))
        \<and> neo4jService_run (graph_service ''Doc'' [titled ''red blue red''] (no_terms ''title'' None None)) = search_database (graph_service ''Doc'' [titled ''red blue red''] (no_terms ''title'' None None)) [titled ''red blue red''] (no_terms ''title'' None None)"
    by (intro conjI; (rule graph_service_run | simp add: graph_service_def no_terms_def plain_name_def backquote_def labelled_def
        text_or_absent_def titled_def numbered_def convertSkipLimit_def opt_field_def or_default_def
        neo4j_int_def))
  from empty_terms_empty_result [where ws = "[]" and svc = "default_service ''Doc'' []"
      and g = "[titled ''red blue red'']" and ps = "title_search [''red'']"
      and qs = "no_terms ''title'' None None"
      and ms = "graph_service ''Doc'' [titled ''red blue red''] (no_terms ''title'' None None)"]
  have "terms (no_terms ''title'' None None) = []
        \<and> plain_name (label (graph_service ''Doc'' [titled ''red blue red''] (no_terms ''title'' None None))) \<and> plain_name (propName (no_terms ''title'' None None))
        \<and> list_all (text_or_absent (propName (no_terms ''title'' None None))) (labelled (label (graph_service ''Doc'' [titled ''red blue red''] (no_terms ''title'' None None))) [titled ''red blue red''])
        \<and> 0 \<le> sint (skip_int (convertSkipLimit (Some (no_terms ''title'' None None))))
        \<and> 0 \<le> sint (limit_int (convertSkipLimit (Some (no_terms ''title'' None None))))
        \<and> (logger (graph_service ''Doc'' [titled ''red blue red''] (no_terms ''title'' None None)) = None \<or> (\<exists>d. logger (graph_service ''Doc'' [titled ''red blue red''] (no_terms ''title'' None None)) = Some d \<and> (\<forall>a. d a = None)))
        \<and> neo4jService_run (graph_service ''Doc'' [titled ''red blue red''] (no_terms ''title'' None None)) = search_database (graph_service ''Doc'' [titled ''red blue red''] (no_terms ''title'' None None)) [titled ''red blue red''] (no_terms ''title'' None None)
        \<longrightarrow> searchBy (graph_service ''Doc'' [titled ''red blue red''] (no_terms ''title'' None None)) (no_terms ''title'' None None) = Inr []"
    by (elim conjE)
  with h_b have c_b: "searchBy (graph_service ''Doc'' [titled ''red blue red''] (no_terms ''title'' None None)) (no_terms ''title'' None None) = Inr []"
    by (rule rev_mp)
  have h_c: "plain_name (label (graph_service ''Doc'' [numbered] (no_terms ''title'' None None))) \<and> plain_name (propName (no_terms ''title'' None None))
        \<and> (sint (skip_int (convertSkipLimit (Some (no_terms ''title'' None None)))) < 0
            \<or> sint (limit_int (convertSkipLimit (Some (no_terms ''title'' None None)))) < 0
            \<or> \<not> list_all (text_or_absent (propName (no_terms ''title'' None None))) (labelled (label (graph_service ''Doc'' [numbered] (no_terms ''title'' None None))) [numbered]))
        \<and> (logger (graph_service ''Doc'' [numbered] (no_terms ''title'' None None)) = None \<or> (\<exists>d. logger (graph_service ''Doc'' [numbered] (no_terms ''title'' None None)) = Some d \<and> (\<forall>a. d a = None)))
        \<and> neo4jService_run (graph_service ''Doc'' [numbered] (no_terms ''title'' None None)) = search_database (graph_service ''Doc'' [numbered] (no_terms ''title'' None None)) [numbered] (no_terms ''title'' None None)"
    by (intro conjI; (rule graph_service_run | simp add: graph_service_def no_terms_def plain_name_def backquote_def labelled_def
        text_or_absent_def titled_def numbered_def convertSkipLimit_def opt_field_def or_default_def
        neo4j_int_def))
  from empty_terms_empty_result [where ws = "[]" and svc = "default_service ''Doc'' []"
      and g = "[numbered]" and ps = "title_search [''red'']"
      and qs = "no_terms ''title'' None None"
      and ms = "graph_service ''Doc'' [numbered] (no_terms ''title'' None None)"]
  have "plain_name (label (graph_service ''Doc'' [numbered] (no_terms ''title'' None None))) \<and> plain_name (propName (no_terms ''title'' None None))
        \<and> (sint (skip_int (convertSkipLimit (Some (no_terms ''title'' None None)))) < 0
            \<or> sint (limit_int (convertSkipLimit (Some (no_terms ''title'' None None)))) < 0
            \<or> \<not> list_all (text_or_absent (propName (no_terms ''title'' None None))) (labelled (label (graph_service ''Doc'' [numbered] (no_terms ''title'' None None))) [numbered]))
        \<and> (logger (graph_service ''Doc'' [numbered] (no_terms ''title'' None None)) = None \<or> (\<exists>d. logger (graph_service ''Doc'' [numbered] (no_terms ''title'' None None)) = Some d \<and> (\<forall>a. d a = None)))
        \<and> neo4jService_run (graph_service ''Doc'' [numbered] (no_terms ''title'' None None)) = search_database (graph_service ''Doc'' [numbered] (no_terms ''title'' None None)) [numbered] (no_terms ''title'' None None)
        \<longrightarrow> searchBy (graph_service ''Doc'' [numbered] (no_terms ''title'' None None)) (no_terms ''title'' None None) = Inl (Failure ''statement rejected'')"
    by (elim conjE)
  with h_c have c_c: "searchBy (graph_service ''Doc'' [numbered] (no_terms ''title'' None None)) (no_terms ''title'' None None) = Inl (Failure ''statement rejected'')"
    by (rule rev_mp)
  have h_d: "plain_name (label (graph_service ''Doc'' [titled ''red blue red''] (no_terms ''title'' (Some (- 1)) None))) \<and> plain_name (propName (no_terms ''title'' (Some (- 1)) None))
        \<and> (sint (skip_int (convertSkipLimit (Some (no_terms ''title'' (Some (- 1)) None)))) < 0
            \<or> sint (limit_int (convertSkipLimit (Some (no_terms ''title'' (Some (- 1)) None)))) < 0
            \<or> \<not> list_all (text_or_absent (propName (no_terms ''title'' (Some (- 1)) None))) (labelled (label (graph_service ''Doc'' [titled ''red blue red''] (no_terms ''title'' (Some (- 1)) None))) [titled ''red blue red'']))
        \<and> (logger (graph_service ''Doc'' [titled ''red blue red''] (no_terms ''title'' (Some (- 1)) None)) = None \<or> (\<exists>d. logger (graph_service ''Doc'' [titled ''red blue red''] (no_terms ''title'' (Some (- 1)) None)) = Some d \<and> (\<forall>a. d a = None)))
        \<and> neo4jService_run (graph_service ''Doc'' [titled ''red blue red''] (no_terms ''title'' (Some (- 1)) None)) = search_database (graph_service ''Doc'' [titled ''red blue red''] (no_terms ''title'' (Some (- 1)) None)) [titled ''red blue red''] (no_terms ''title'' (Some (- 1)) None)"
    by (intro conjI; (rule graph_service_run | simp add: graph_service_def no_terms_def plain_name_def backquote_def labelled_def
        text_or_absent_def titled_def numbered_def convertSkipLimit_def opt_field_def or_default_def
        neo4j_int_def))
  from empty_terms_empty_result [where ws = "[]" and svc = "default_service ''Doc'' []"
      and g = "[titled ''red blue red'']" and ps = "title_search [''red'']"
      and qs = "no_terms ''title'' (Some (- 1)) None"
      and ms = "graph_service ''Doc'' [titled ''red blue red''] (no_terms ''title'' (Some (- 1)) None)"]
  have "plain_name (label (graph_service ''Doc'' [titled ''red blue red''] (no_terms ''title'' (Some (- 1)) None))) \<and> plain_name (propName (no_terms ''title'' (Some (- 1)) None))
        \<and> (sint (skip_int (convertSkipLimit (Some (no_terms ''title'' (Some (- 1)) None)))) < 0
            \<or> sint (limit_int (convertSkipLimit (Some (no_terms ''title'' (Some (- 1)) None)))) < 0
            \<or> \<not> list_all (text_or_absent (propName (no_terms ''title'' (Some (- 1)) None))) (labelled (label (graph_service ''Doc'' [titled ''red blue red''] (no_terms ''title'' (Some (- 1)) None))) [titled ''red blue red'']))
        \<and> (logger (graph_service ''Doc'' [titled ''red blue red''] (no_terms ''title'' (Some (- 1)) None)) = None \<or> (\<exists>d. logger (graph_service ''Doc'' [titled ''red blue red''] (no_terms ''title'' (Some (- 1)) None)) = Some d \<and> (\<forall>a. d a = None)))
        \<and> neo4jService_run (graph_service ''Doc'' [titled ''red blue red''] (no_terms ''title'' (Some (- 1)) None)) = search_database (graph_service ''Doc'' [titled ''red blue red''] (no_terms ''title'' (Some (- 1)) None)) [titled ''red blue red''] (no_terms ''title'' (Some (- 1)) None)
        \<longrightarrow> searchBy (graph_service ''Doc'' [titled ''red blue red''] (no_terms ''title'' (Some (- 1)) None)) (no_terms ''title'' (Some (- 1)) None) = Inl (Failure ''statement rejected'')"
    by (elim conjE)
  with h_d have c_d: "searchBy (graph_service ''Doc'' [titled ''red blue red''] (no_terms ''title'' (Some (- 1)) None)) (no_terms ''title'' (Some (- 1)) None) = Inl (Failure ''statement rejected'')"
    by (rule rev_mp)
  from h_a c_a h_b c_b h_c c_c h_d c_d show ?thesis
    by (intro conjI) (elim conjE, assumption)+
qed

end
